theory Spec2Isabelle
  imports Main "HOL-Library.Word"
begin

unbundle bit_operations_syntax

section \<open>Common data\<close>

text \<open>
  A shallow embedding of \<^verbatim>\<open>peachpy/writer.py\<close>: the four file-backed writers
  (\<^verbatim>\<open>AssemblyWriter\<close>, \<^verbatim>\<open>ELFWriter\<close>, \<^verbatim>\<open>MachOWriter\<close>, \<^verbatim>\<open>MSCOFFWriter\<close>), the
  \<^verbatim>\<open>NullWriter\<close> and the module-level slot \<^verbatim>\<open>active_writer\<close>.

  A Python object is identified by a reference; the slot \<^verbatim>\<open>active_writer\<close> and the
  attribute \<^verbatim>\<open>previous_writer\<close> hold a reference or \<^verbatim>\<open>None\<close>.
\<close>

type_synonym byte = "8 word"
type_synonym ref = nat

datatype error =
    ValueError string
  | AssertionError string
  | AttributeError string
  | KeyError string
  | OSError string
  | OtherError string

text \<open>
  An operation either completes (\<open>Ok\<close>) or raises; \<open>Raise e s\<close> keeps the state \<open>s\<close>
  reached when the exception \<open>e\<close> left the operation, since Python does not roll back the
  mutations made before a \<^verbatim>\<open>raise\<close>.
\<close>

datatype 'a outcome = Ok 'a | Raise error 'a

fun state_of :: "'a outcome \<Rightarrow> 'a" where
  "state_of (Ok s) = s"
| "state_of (Raise e s) = s"

fun raised :: "'a outcome \<Rightarrow> error option" where
  "raised (Ok s) = None"
| "raised (Raise e s) = Some e"

subsection \<open>The function handed to a writer\<close>

text \<open>
  \<^verbatim>\<open>function.encode()\<close> yields the code bytes, the constant data, the named constant
  symbols and the code relocations; \<^verbatim>\<open>as_bytearray\<close> is the flat blob the Mach-O and
  MS-COFF writers append. \<^verbatim>\<open>function.format(fmt)\<close> is the text of the function in an
  assembly dialect. The classes of the function and of its encoding are not in
  \<^verbatim>\<open>writer.py\<close>; only the attributes the writers read are kept.
\<close>

record const_symbol =
  cs_name :: string
  cs_offset :: int
  cs_size :: int

record code_relocation =
  r_offset :: int
  r_symbol :: string

record encoded_function =
  code_content :: "byte list"
  const_content :: "byte list"
  const_symbols :: "const_symbol list"
  code_relocations :: "code_relocation list"
  as_bytearray :: "byte list"

record abi_function =
  fn_name :: string
  fn_encode :: encoded_function
  fn_format :: "string \<Rightarrow> string"

text \<open>
  \<open>PlainFunction\<close> is a function that is not an instance of \<^verbatim>\<open>ABIFunction\<close> (it has
  not been bound to an ABI); the \<^verbatim>\<open>isinstance\<close> assertion of every \<^verbatim>\<open>add_function\<close>
  tells the two apart.
\<close>

datatype py_function = PlainFunction string | ABIFunction abi_function

definition assert_message :: string where
  "assert_message = ''Function must be bindinded to an ABI before its assembly can be used''"

subsection \<open>The ABI and the encoder\<close>

datatype endianness = Little | Big

record abi =
  abi_endianness :: endianness
  elf_bitness :: nat

fun le_bytes :: "nat \<Rightarrow> nat \<Rightarrow> byte list" where
  "le_bytes 0 n = []"
| "le_bytes (Suc k) n = of_nat (n mod 256) # le_bytes k (n div 256)"

text \<open>
  Modelled from the spec: the class \<^verbatim>\<open>Encoder\<close> of \<^verbatim>\<open>peachpy.encoder\<close> is not in the
  sources at hand. \<^verbatim>\<open>Encoder(endianness, bitness).uint64(n)\<close> is the fixed-width encoding
  of an unsigned 64-bit integer, eight bytes in the byte order of the ABI, whatever the
  bitness of the encoder; an integer outside the unsigned 64-bit range is rejected by an
  assertion (which is why the writer masks the addend \<^verbatim>\<open>-4\<close> before encoding it).
\<close>

definition uint64 :: "endianness \<Rightarrow> int \<Rightarrow> error + byte list" where
  "uint64 e n =
     (if 0 \<le> n \<and> n \<le> 18446744073709551615
      then Inr (case e of Little \<Rightarrow> le_bytes 8 (nat n) | Big \<Rightarrow> rev (le_bytes 8 (nat n)))
      else Inl (AssertionError ''not an unsigned 64-bit integer''))"

text \<open>Reading fixed-width integers back, to state what the encoded fields hold.\<close>

fun le_decode :: "byte list \<Rightarrow> nat" where
  "le_decode [] = 0"
| "le_decode (b # bs) = unat b + 256 * le_decode bs"

definition decode_uint :: "endianness \<Rightarrow> byte list \<Rightarrow> nat" where
  "decode_uint e bs = (case e of Little \<Rightarrow> le_decode bs | Big \<Rightarrow> le_decode (rev bs))"

definition decode_sint64 :: "endianness \<Rightarrow> byte list \<Rightarrow> int" where
  "decode_sint64 e bs =
     (let u = int (decode_uint e bs)
      in if u < 9223372036854775808 then u else u - 18446744073709551616)"

section \<open>The ELF writer\<close>

subsection \<open>Sections, symbols and the image\<close>

datatype section_class = TextSection | ProgramBitsSection bool | PlainSection

datatype SectionType = AddendRelocations

record section_header =
  content_type :: SectionType
  content_size :: nat
  link_index :: "nat option"
  header_info :: "nat option"
  entry_size :: nat

text \<open>
  Modelled from the spec: the section classes of \<^verbatim>\<open>peachpy.formats.elf.section\<close> are not
  in the sources at hand. A section holds an append-only byte buffer and the index the
  image assigned when the section was bound (\<^verbatim>\<open>None\<close> before). Of the header only the
  fields \<^verbatim>\<open>add_function\<close> sets on \<^verbatim>\<open>.rela.text\<close> are kept; a section the writer never
  gives a header has \<open>sec_header = None\<close>.
\<close>

record elf_section =
  sec_class :: section_class
  sec_content :: "byte list"
  sec_index :: "nat option"
  sec_header :: "section_header option"

definition new_section :: "section_class \<Rightarrow> elf_section" where
  "new_section c = \<lparr>sec_class = c, sec_content = [], sec_index = None, sec_header = None\<rparr>"

definition section_append :: "elf_section \<Rightarrow> byte list \<Rightarrow> elf_section" where
  "section_append s bs = s\<lparr>sec_content := sec_content s @ bs\<rparr>"

datatype SymbolBinding = Local | Global
datatype SymbolType = DataObject | Function

record elf_symbol =
  name_index :: nat
  sym_value :: int
  sym_content_size :: int
  section_index :: "nat option"
  binding :: SymbolBinding
  sym_type :: SymbolType

text \<open>
  Modelled from the spec: the class \<^verbatim>\<open>Image\<close> of \<^verbatim>\<open>peachpy.formats.elf.image\<close> is not in
  the sources at hand. The image owns an ordered collection of sections (kept here by
  name, in the order they were bound; the writer holds the section objects), a symbol
  table and a string table. Binding a section appends it and assigns it its position as
  its index. The symbol table and the string table are sections of the image themselves
  (the writer reads \<^verbatim>\<open>symtab.index\<close>), bound when the image is built. \<^verbatim>\<open>strtab.add\<close>
  and \<^verbatim>\<open>symtab.add\<close> append an entry and return its index; the string table does not
  merge equal names.
\<close>

record elf_image =
  img_abi :: abi
  img_source :: "string option"
  img_sections :: "string list"
  symtab_index :: "nat option"
  symtab :: "elf_symbol list"
  strtab :: "string list"

definition Image_init :: "abi \<Rightarrow> string option \<Rightarrow> elf_image" where
  "Image_init a source =
     \<lparr>img_abi = a, img_source = source, img_sections = [''.strtab'', ''.symtab''],
      symtab_index = Some 1, symtab = [], strtab = []\<rparr>"

definition bind_section :: "elf_image \<Rightarrow> elf_section \<Rightarrow> string \<Rightarrow> elf_image \<times> elf_section" where
  "bind_section img s name =
     (img\<lparr>img_sections := img_sections img @ [name]\<rparr>,
      s\<lparr>sec_index := Some (length (img_sections img))\<rparr>)"

definition strtab_add :: "elf_image \<Rightarrow> string \<Rightarrow> elf_image \<times> nat" where
  "strtab_add img name = (img\<lparr>strtab := strtab img @ [name]\<rparr>, length (strtab img))"

definition symtab_add :: "elf_image \<Rightarrow> elf_symbol \<Rightarrow> elf_image \<times> nat" where
  "symtab_add img s = (img\<lparr>symtab := symtab img @ [s]\<rparr>, length (symtab img))"

subsection \<open>The writer\<close>

text \<open>
  The attributes every file-backed writer has. \<open>output_file\<close> is the name of the open
  file, \<open>None\<close> outside a scope.
\<close>

record writer =
  output_path :: string
  previous_writer :: "ref option"
  output_file :: "string option"

record elf_writer = writer +
  elf_abi :: abi
  image :: elf_image
  text_section :: elf_section
  text_rela_section :: "elf_section option"
  rodata_section :: "elf_section option"

definition ELFWriter_init :: "string \<Rightarrow> abi \<Rightarrow> string option \<Rightarrow> elf_writer" where
  "ELFWriter_init path a input_path =
     (let (img, text) = bind_section (Image_init a input_path) (new_section TextSection) ''.text''
      in \<lparr>output_path = path, previous_writer = None, output_file = None,
          elf_abi = a, image = img, text_section = text,
          text_rela_section = None, rodata_section = None\<rparr>)"

text \<open>Lines 113 to 120: the constant data, with \<^verbatim>\<open>.rodata\<close> bound on first use.\<close>

definition add_rodata :: "elf_writer \<Rightarrow> encoded_function \<Rightarrow> elf_writer \<times> nat" where
  "add_rodata w ef =
     (if const_content ef \<noteq> [] then
        (let w1 = (case rodata_section w of
                     None \<Rightarrow>
                       (let (img, s) = bind_section (image w)
                                         (new_section (ProgramBitsSection True)) ''.rodata''
                        in w\<lparr>image := img, rodata_section := Some s\<rparr>)
                   | Some s \<Rightarrow> w);
             function_rodata_offset =
               (case rodata_section w1 of None \<Rightarrow> 0 | Some s \<Rightarrow> length (sec_content s))
         in (w1\<lparr>rodata_section := map_option (\<lambda>s. section_append s (const_content ef))
                                        (rodata_section w1)\<rparr>,
             function_rodata_offset))
      else (w, 0))"

text \<open>
  Lines 124 to 134: one symbol per constant, and the map from symbol name to symbol
  index. The name is interned before \<^verbatim>\<open>self.rodata_section.index\<close> is read, which raises
  when no \<^verbatim>\<open>.rodata\<close> section exists.
\<close>

fun add_const_symbols ::
  "nat \<Rightarrow> const_symbol list \<Rightarrow> elf_writer \<Rightarrow> (string \<rightharpoonup> nat) \<Rightarrow> (elf_writer \<times> (string \<rightharpoonup> nat)) outcome"
where
  "add_const_symbols function_rodata_offset [] w symbol_map = Ok (w, symbol_map)"
| "add_const_symbols function_rodata_offset (symbol # rest) w symbol_map =
     (let (img1, ni) = strtab_add (image w) (cs_name symbol);
          w1 = w\<lparr>image := img1\<rparr>
      in case rodata_section w1 of
           None \<Rightarrow> Raise (AttributeError ''index'') (w1, symbol_map)
         | Some rodata \<Rightarrow>
             (let const_symbol =
                    \<lparr>name_index = ni,
                     sym_value = int function_rodata_offset + cs_offset symbol,
                     sym_content_size = cs_size symbol,
                     section_index = sec_index rodata,
                     binding = Local, sym_type = DataObject\<rparr>;
                  (img2, const_symbol_index) = symtab_add (image w1) const_symbol
              in add_const_symbols function_rodata_offset rest (w1\<lparr>image := img2\<rparr>)
                   (symbol_map(cs_name symbol \<mapsto> const_symbol_index))))"

text \<open>Lines 137 to 145: \<^verbatim>\<open>.rela.text\<close>, created and bound on first use.\<close>

definition bind_text_rela :: "elf_writer \<Rightarrow> elf_writer" where
  "bind_text_rela w =
     (case text_rela_section w of
        Some s \<Rightarrow> w
      | None \<Rightarrow>
          (let s0 = (new_section PlainSection)
                      \<lparr>sec_header := Some
                         \<lparr>content_type = AddendRelocations, content_size = 0,
                          link_index = symtab_index (image w),
                          header_info = sec_index (text_section w),
                          entry_size = (if elf_bitness (elf_abi w) = 64 then 24 else 12)\<rparr>\<rparr>;
               (img, s) = bind_section (image w) s0 ''.rela.text''
           in w\<lparr>image := img, text_rela_section := Some s\<rparr>))"

text \<open>
  Lines 149 to 157: one entry per relocation. The lookup in the map comes first; the three
  fields are then encoded from left to right, each by \<^verbatim>\<open>encoder.uint64\<close>.
\<close>

definition R_X86_64_PC32 :: int where
  "R_X86_64_PC32 = 2"

definition encode_relocation :: "endianness \<Rightarrow> int \<Rightarrow> nat \<Rightarrow> error + byte list" where
  "encode_relocation e offset symbol_index =
     (let info = push_bit 32 (int symbol_index) OR R_X86_64_PC32;
          addend = - 4
      in case uint64 e offset of
           Inl err \<Rightarrow> Inl err
         | Inr b1 \<Rightarrow>
             (case uint64 e info of
                Inl err \<Rightarrow> Inl err
              | Inr b2 \<Rightarrow>
                  (case uint64 e (addend AND 18446744073709551615) of
                     Inl err \<Rightarrow> Inl err
                   | Inr b3 \<Rightarrow> Inr (b1 @ b2 @ b3))))"

definition rela_append :: "elf_section \<Rightarrow> byte list \<Rightarrow> elf_section" where
  "rela_append s relocation =
     s\<lparr>sec_content := sec_content s @ relocation,
       sec_header := map_option
         (\<lambda>h. h\<lparr>content_size := content_size h + length relocation\<rparr>) (sec_header s)\<rparr>"

fun add_relocations ::
  "endianness \<Rightarrow> (string \<rightharpoonup> nat) \<Rightarrow> code_relocation list \<Rightarrow> elf_writer \<Rightarrow> elf_writer outcome"
where
  "add_relocations e symbol_map [] w = Ok w"
| "add_relocations e symbol_map (relocation # rest) w =
     (case symbol_map (r_symbol relocation) of
        None \<Rightarrow> Raise (KeyError (r_symbol relocation)) w
      | Some symbol_index \<Rightarrow>
          (case encode_relocation e (r_offset relocation) symbol_index of
             Inl err \<Rightarrow> Raise err w
           | Inr bytes \<Rightarrow>
               (case text_rela_section w of
                  None \<Rightarrow> Raise (AttributeError ''_content'') w
                | Some s \<Rightarrow>
                    add_relocations e symbol_map rest
                      (w\<lparr>text_rela_section := Some (rela_append s bytes)\<rparr>))))"

text \<open>Lines 159 to 166: the symbol of the function itself.\<close>

definition add_function_symbol :: "elf_writer \<Rightarrow> string \<Rightarrow> nat \<Rightarrow> nat \<Rightarrow> elf_writer" where
  "add_function_symbol w name function_offset code_length =
     (let (img1, ni) = strtab_add (image w) name;
          function_symbol =
            \<lparr>name_index = ni, sym_value = int function_offset,
             sym_content_size = int code_length,
             section_index = sec_index (text_section w),
             binding = Global, sym_type = Function\<rparr>;
          (img2, i) = symtab_add img1 function_symbol
      in w\<lparr>image := img2\<rparr>)"

definition ELFWriter_add_function :: "elf_writer \<Rightarrow> py_function \<Rightarrow> elf_writer outcome" where
  "ELFWriter_add_function w function =
     (case function of
        PlainFunction n \<Rightarrow> Raise (AssertionError assert_message) w
      | ABIFunction f \<Rightarrow>
          (let encoded_function = fn_encode f;
               function_offset = length (sec_content (text_section w));
               w1 = w\<lparr>text_section :=
                      section_append (text_section w) (code_content encoded_function)\<rparr>;
               (w2, function_rodata_offset) = add_rodata w1 encoded_function
           in case add_const_symbols function_rodata_offset (const_symbols encoded_function)
                     w2 Map.empty of
                Raise err (w3, symbol_map) \<Rightarrow> Raise err w3
              | Ok (w3, symbol_map) \<Rightarrow>
                  (case (if code_relocations encoded_function \<noteq> []
                         then add_relocations (abi_endianness (elf_abi w3)) symbol_map
                                (code_relocations encoded_function) (bind_text_rela w3)
                         else Ok w3) of
                     Raise err w4 \<Rightarrow> Raise err w4
                   | Ok w4 \<Rightarrow>
                       Ok (add_function_symbol w4 (fn_name f) function_offset
                             (length (code_content encoded_function))))))"

text \<open>The calls made inside one scope, in order; the first exception ends the block.\<close>

fun ELFWriter_add_functions :: "elf_writer \<Rightarrow> py_function list \<Rightarrow> elf_writer outcome" where
  "ELFWriter_add_functions w [] = Ok w"
| "ELFWriter_add_functions w (f # rest) =
     (case ELFWriter_add_function w f of
        Raise err w1 \<Rightarrow> Raise err w1
      | Ok w1 \<Rightarrow> ELFWriter_add_functions w1 rest)"


section \<open>The process and its files\<close>

text \<open>
  The state outside the writers: the module-level slot \<^verbatim>\<open>active_writer\<close> and the files
  on disk, by path. \<^verbatim>\<open>open(path, "w")\<close> creates the file or empties it,
  \<^verbatim>\<open>write\<close> appends to an open file that is still on disk, and \<^verbatim>\<open>os.unlink\<close> removes
  a file and raises when there is none. Failures of the operating system other than that
  one are not modelled. The binary writers open their file with \<^verbatim>\<open>buffering=0\<close> in
  mode \<^verbatim>\<open>"w"\<close>, which Python 2 accepts; the model follows Python 2 there.
\<close>

record world =
  active_writer :: "ref option"
  fs :: "string \<rightharpoonup> byte list"

definition file_open :: "(string \<rightharpoonup> byte list) \<Rightarrow> string \<Rightarrow> (string \<rightharpoonup> byte list)" where
  "file_open files path = files(path \<mapsto> [])"

definition file_write ::
  "(string \<rightharpoonup> byte list) \<Rightarrow> string \<Rightarrow> byte list \<Rightarrow> (string \<rightharpoonup> byte list)" where
  "file_write files name bytes =
     (case files name of None \<Rightarrow> files | Some old \<Rightarrow> files(name \<mapsto> old @ bytes))"

definition os_unlink :: "(string \<rightharpoonup> byte list) \<Rightarrow> string \<Rightarrow> error + (string \<rightharpoonup> byte list)" where
  "os_unlink files name =
     (case files name of None \<Rightarrow> Inl (OSError name) | Some old \<Rightarrow> Inr (files(name := None)))"

definition text_bytes :: "string \<Rightarrow> byte list" where
  "text_bytes s = map (\<lambda>c. of_char c) s"

section \<open>The assembly writer\<close>

record asm_writer = writer +
  assembly_format :: string
  output_header :: string
  comment_prefix :: string

fun linesep_join :: "string \<Rightarrow> string list \<Rightarrow> string" where
  "linesep_join sep [] = []"
| "linesep_join sep [x] = x"
| "linesep_join sep (x # y # ys) = x @ sep @ linesep_join sep (y # ys)"

definition comment_prefixes :: "(string \<times> string) list" where
  "comment_prefixes = [(''go'', ''//''), (''nasm'', '';''), (''masm'', '';''), (''gas'', ''#'')]"

text \<open>
  \<^verbatim>\<open>AssemblyWriter.__init__\<close>; \<open>linesep\<close> is \<^verbatim>\<open>os.linesep\<close> and \<open>version\<close> is
  \<^verbatim>\<open>peachpy.__version__\<close>. The constructor touches neither the slot nor any file: the
  file is opened by \<^verbatim>\<open>__enter__\<close>.
\<close>

definition AssemblyWriter_init ::
  "string \<Rightarrow> string \<Rightarrow> string \<Rightarrow> string \<Rightarrow> string option \<Rightarrow> error + asm_writer" where
  "AssemblyWriter_init linesep version path fmt input_path =
     (if fmt \<notin> {''go'', ''nasm'', ''masm'', ''gas''}
      then Inl (ValueError (''Unknown assembly format: '' @ fmt))
      else
        (case map_of comment_prefixes fmt of
           None \<Rightarrow> Inl (KeyError fmt)
         | Some prefix \<Rightarrow>
             (let header_linea =
                    (case input_path of
                       Some ip \<Rightarrow>
                         [prefix @ '' Generated by PeachPy '' @ version @ '' from '' @ ip, [], []]
                     | None \<Rightarrow> [prefix @ '' Generated by PeachPy '' @ version, [], []])
              in Inr \<lparr>output_path = path, previous_writer = None, output_file = None,
                      assembly_format = fmt,
                      output_header = linesep_join linesep header_linea,
                      comment_prefix = prefix\<rparr>)))"

definition AssemblyWriter_enter :: "ref \<Rightarrow> asm_writer \<Rightarrow> world \<Rightarrow> asm_writer \<times> world" where
  "AssemblyWriter_enter self w s =
     (let w1 = w\<lparr>previous_writer := active_writer s\<rparr>;
          s1 = s\<lparr>active_writer := Some self\<rparr>;
          s2 = s1\<lparr>fs := file_open (fs s1) (output_path w1)\<rparr>;
          w2 = w1\<lparr>output_file := Some (output_path w1)\<rparr>;
          s3 = s2\<lparr>fs := file_write (fs s2) (output_path w1) (text_bytes (output_header w2))\<rparr>
      in (w2, s3))"

definition AssemblyWriter_exit ::
  "error option \<Rightarrow> asm_writer \<Rightarrow> world \<Rightarrow> (asm_writer \<times> world) outcome" where
  "AssemblyWriter_exit exc w s =
     (let s1 = s\<lparr>active_writer := previous_writer w\<rparr>;
          w1 = w\<lparr>previous_writer := None\<rparr>
      in case exc of
           None \<Rightarrow>
             (case output_file w1 of
                None \<Rightarrow> Raise (AttributeError ''close'') (w1, s1)
              | Some name \<Rightarrow> Ok (w1\<lparr>output_file := None\<rparr>, s1))
         | Some e \<Rightarrow>
             (case output_file w1 of
                None \<Rightarrow> Raise (AttributeError ''name'') (w1, s1)
              | Some name \<Rightarrow>
                  (case os_unlink (fs s1) name of
                     Inl err \<Rightarrow> Raise err (w1, s1)
                   | Inr files \<Rightarrow> Raise e (w1\<lparr>output_file := None\<rparr>, s1\<lparr>fs := files\<rparr>))))"

definition AssemblyWriter_add_function ::
  "string \<Rightarrow> asm_writer \<Rightarrow> py_function \<Rightarrow> world \<Rightarrow> (asm_writer \<times> world) outcome" where
  "AssemblyWriter_add_function linesep w function s =
     (case function of
        PlainFunction n \<Rightarrow> Raise (AssertionError assert_message) (w, s)
      | ABIFunction f \<Rightarrow>
          (let function_code = fn_format f (assembly_format w)
           in case output_file w of
                None \<Rightarrow> Raise (AttributeError ''write'') (w, s)
              | Some name \<Rightarrow>
                  Ok (w, s\<lparr>fs := file_write (fs s) name (text_bytes (function_code @ linesep))\<rparr>)))"

section \<open>Scope entry and exit of the ELF writer\<close>

definition ELFWriter_enter :: "ref \<Rightarrow> elf_writer \<Rightarrow> world \<Rightarrow> elf_writer \<times> world" where
  "ELFWriter_enter self w s =
     (let w1 = w\<lparr>previous_writer := active_writer s\<rparr>;
          s1 = s\<lparr>active_writer := Some self\<rparr>;
          s2 = s1\<lparr>fs := file_open (fs s1) (output_path w1)\<rparr>
      in (w1\<lparr>output_file := Some (output_path w1)\<rparr>, s2))"

text \<open>
  \<open>bind\<close> stands for \<^verbatim>\<open>image.symtab.bind()\<close> and \<open>as_bytes\<close> for
  \<^verbatim>\<open>image.as_bytearray\<close>; both belong to the image classes and are parameters here.
\<close>

definition ELFWriter_exit ::
  "(elf_image \<Rightarrow> elf_image) \<Rightarrow> (elf_writer \<Rightarrow> byte list) \<Rightarrow>
   error option \<Rightarrow> elf_writer \<Rightarrow> world \<Rightarrow> (elf_writer \<times> world) outcome" where
  "ELFWriter_exit bind as_bytes exc w s =
     (let s1 = s\<lparr>active_writer := previous_writer w\<rparr>;
          w1 = w\<lparr>previous_writer := None\<rparr>
      in case exc of
           None \<Rightarrow>
             (let w2 = w1\<lparr>image := bind (image w1)\<rparr>
              in case output_file w2 of
                   None \<Rightarrow> Raise (AttributeError ''write'') (w2, s1)
                 | Some name \<Rightarrow>
                     Ok (w2\<lparr>output_file := None\<rparr>,
                         s1\<lparr>fs := file_write (fs s1) name (as_bytes w2)\<rparr>))
         | Some e \<Rightarrow>
             (case output_file w1 of
                None \<Rightarrow> Raise (AttributeError ''name'') (w1, s1)
              | Some name \<Rightarrow>
                  (case os_unlink (fs s1) name of
                     Inl err \<Rightarrow> Raise err (w1, s1)
                   | Inr files \<Rightarrow> Raise e (w1\<lparr>output_file := None\<rparr>, s1\<lparr>fs := files\<rparr>))))"

section \<open>The Mach-O writer\<close>

datatype SymbolDescription = Defined
datatype MachOSymbolType = SectionRelative
datatype SymbolVisibility = External

record macho_symbol =
  description :: SymbolDescription
  macho_type :: MachOSymbolType
  visibility :: SymbolVisibility
  string_index :: nat
  macho_section_index :: "nat option"
  macho_value :: nat

text \<open>
  Modelled from the spec: the classes of \<^verbatim>\<open>peachpy.formats.macho\<close> are not in the
  sources at hand. The image is built with its text section already in place (and
  indexed); it owns the list of symbols and a string table whose \<^verbatim>\<open>add\<close> appends the
  name, without merging equal names, and returns the index of the new entry.
\<close>

record macho_section =
  macho_content :: "byte list"
  macho_index :: "nat option"

record macho_image =
  macho_abi :: abi
  macho_text_section :: macho_section
  string_table :: "string list"
  symbols :: "macho_symbol list"

definition MachO_Image_init :: "abi \<Rightarrow> macho_image" where
  "MachO_Image_init a =
     \<lparr>macho_abi = a, macho_text_section = \<lparr>macho_content = [], macho_index = Some 1\<rparr>,
      string_table = [], symbols = []\<rparr>"

record macho_writer = writer +
  mw_abi :: abi
  mw_image :: macho_image

definition MachOWriter_init :: "string \<Rightarrow> abi \<Rightarrow> macho_writer" where
  "MachOWriter_init path a =
     \<lparr>output_path = path, previous_writer = None, output_file = None,
      mw_abi = a, mw_image = MachO_Image_init a\<rparr>"

definition MachOWriter_enter :: "ref \<Rightarrow> macho_writer \<Rightarrow> world \<Rightarrow> macho_writer \<times> world" where
  "MachOWriter_enter self w s =
     (let w1 = w\<lparr>previous_writer := active_writer s\<rparr>;
          s1 = s\<lparr>active_writer := Some self\<rparr>;
          s2 = s1\<lparr>fs := file_open (fs s1) (output_path w1)\<rparr>
      in (w1\<lparr>output_file := Some (output_path w1)\<rparr>, s2))"

definition MachOWriter_exit ::
  "(macho_image \<Rightarrow> byte list) \<Rightarrow> error option \<Rightarrow> macho_writer \<Rightarrow> world \<Rightarrow>
   (macho_writer \<times> world) outcome" where
  "MachOWriter_exit as_bytes exc w s =
     (let s1 = s\<lparr>active_writer := previous_writer w\<rparr>;
          w1 = w\<lparr>previous_writer := None\<rparr>
      in case exc of
           None \<Rightarrow>
             (case output_file w1 of
                None \<Rightarrow> Raise (AttributeError ''write'') (w1, s1)
              | Some name \<Rightarrow>
                  Ok (w1\<lparr>output_file := None\<rparr>,
                      s1\<lparr>fs := file_write (fs s1) name (as_bytes (mw_image w1))\<rparr>))
         | Some e \<Rightarrow>
             (case output_file w1 of
                None \<Rightarrow> Raise (AttributeError ''name'') (w1, s1)
              | Some name \<Rightarrow>
                  (case os_unlink (fs s1) name of
                     Inl err \<Rightarrow> Raise err (w1, s1)
                   | Inr files \<Rightarrow> Raise e (w1\<lparr>output_file := None\<rparr>, s1\<lparr>fs := files\<rparr>))))"

definition MachOWriter_add_function :: "macho_writer \<Rightarrow> py_function \<Rightarrow> macho_writer outcome" where
  "MachOWriter_add_function w function =
     (case function of
        PlainFunction n \<Rightarrow> Raise (AssertionError assert_message) w
      | ABIFunction f \<Rightarrow>
          (let encoded_function = fn_encode f;
               function_code = as_bytearray encoded_function;
               img = mw_image w;
               function_offset = length (macho_content (macho_text_section img));
               img1 = img\<lparr>macho_text_section := (macho_text_section img)
                        \<lparr>macho_content := macho_content (macho_text_section img) @ function_code\<rparr>\<rparr>;
               img2 = img1\<lparr>string_table := string_table img1 @ [''_'' @ fn_name f]\<rparr>;
               function_symbol =
                 \<lparr>description = Defined, macho_type = SectionRelative, visibility = External,
                  string_index = length (string_table img1),
                  macho_section_index = macho_index (macho_text_section img2),
                  macho_value = function_offset\<rparr>
           in Ok (w\<lparr>mw_image := img2\<lparr>symbols := symbols img2 @ [function_symbol]\<rparr>\<rparr>)))"

section \<open>The MS-COFF writer\<close>

datatype MSCOFFSymbolType = SymbolType_function
datatype StorageClass = StorageClass_external

record coff_symbol =
  coff_value :: nat
  coff_section_index :: "nat option"
  symbol_type :: MSCOFFSymbolType
  storage_class :: StorageClass

text \<open>
  Modelled from the spec: the classes of \<^verbatim>\<open>peachpy.formats.mscoff\<close> are not in the
  sources at hand. The image keeps the names of its sections in the order they were
  added, which gives each its index, and the symbol entries with their names; the text
  section is an append-only byte buffer.
\<close>

record coff_section =
  coff_content :: "byte list"
  coff_index :: "nat option"

record coff_image =
  coff_abi :: abi
  coff_source :: "string option"
  coff_sections :: "string list"
  coff_symbols :: "(coff_symbol \<times> string) list"

record coff_writer = writer +
  cw_abi :: abi
  cw_image :: coff_image
  cw_text_section :: coff_section

definition MSCOFFWriter_init :: "string \<Rightarrow> abi \<Rightarrow> string option \<Rightarrow> coff_writer" where
  "MSCOFFWriter_init path a input_path =
     (let img = \<lparr>coff_abi = a, coff_source = input_path, coff_sections = [], coff_symbols = []\<rparr>;
          text = \<lparr>coff_content = [], coff_index = Some (length (coff_sections img))\<rparr>
      in \<lparr>output_path = path, previous_writer = None, output_file = None,
          cw_abi = a, cw_image = img\<lparr>coff_sections := coff_sections img @ [''.text'']\<rparr>,
          cw_text_section = text\<rparr>)"

definition MSCOFFWriter_enter :: "ref \<Rightarrow> coff_writer \<Rightarrow> world \<Rightarrow> coff_writer \<times> world" where
  "MSCOFFWriter_enter self w s =
     (let w1 = w\<lparr>previous_writer := active_writer s\<rparr>;
          s1 = s\<lparr>active_writer := Some self\<rparr>;
          s2 = s1\<lparr>fs := file_open (fs s1) (output_path w1)\<rparr>
      in (w1\<lparr>output_file := Some (output_path w1)\<rparr>, s2))"

definition MSCOFFWriter_exit ::
  "(coff_writer \<Rightarrow> byte list) \<Rightarrow> error option \<Rightarrow> coff_writer \<Rightarrow> world \<Rightarrow>
   (coff_writer \<times> world) outcome" where
  "MSCOFFWriter_exit as_bytes exc w s =
     (let s1 = s\<lparr>active_writer := previous_writer w\<rparr>;
          w1 = w\<lparr>previous_writer := None\<rparr>
      in case exc of
           None \<Rightarrow>
             (case output_file w1 of
                None \<Rightarrow> Raise (AttributeError ''write'') (w1, s1)
              | Some name \<Rightarrow>
                  Ok (w1\<lparr>output_file := None\<rparr>,
                      s1\<lparr>fs := file_write (fs s1) name (as_bytes w1)\<rparr>))
         | Some e \<Rightarrow>
             (case output_file w1 of
                None \<Rightarrow> Raise (AttributeError ''name'') (w1, s1)
              | Some name \<Rightarrow>
                  (case os_unlink (fs s1) name of
                     Inl err \<Rightarrow> Raise err (w1, s1)
                   | Inr files \<Rightarrow> Raise e (w1\<lparr>output_file := None\<rparr>, s1\<lparr>fs := files\<rparr>))))"

definition MSCOFFWriter_add_function :: "coff_writer \<Rightarrow> py_function \<Rightarrow> coff_writer outcome" where
  "MSCOFFWriter_add_function w function =
     (case function of
        PlainFunction n \<Rightarrow> Raise (AssertionError assert_message) w
      | ABIFunction f \<Rightarrow>
          (let encoded_function = fn_encode f;
               function_code = as_bytearray encoded_function;
               function_offset = length (coff_content (cw_text_section w));
               w1 = w\<lparr>cw_text_section := (cw_text_section w)
                      \<lparr>coff_content := coff_content (cw_text_section w) @ function_code\<rparr>\<rparr>;
               function_symbol =
                 \<lparr>coff_value = function_offset,
                  coff_section_index = coff_index (cw_text_section w1),
                  symbol_type = SymbolType_function, storage_class = StorageClass_external\<rparr>
           in Ok (w1\<lparr>cw_image := (cw_image w1)
                    \<lparr>coff_symbols := coff_symbols (cw_image w1) @ [(function_symbol, fn_name f)]\<rparr>\<rparr>)))"

section \<open>The null writer\<close>

text \<open>
  \<^verbatim>\<open>NullWriter.__init__\<close> sets no attribute: \<open>null_previous_writer\<close> is \<open>None\<close> until
  \<^verbatim>\<open>__enter__\<close> assigns it, and reading it before raises.
\<close>

record null_writer =
  null_previous_writer :: "ref option option"

definition NullWriter_init :: null_writer where
  "NullWriter_init = \<lparr>null_previous_writer = None\<rparr>"

definition NullWriter_enter :: "null_writer \<Rightarrow> world \<Rightarrow> null_writer \<times> world" where
  "NullWriter_enter w s =
     (w\<lparr>null_previous_writer := Some (active_writer s)\<rparr>, s\<lparr>active_writer := None\<rparr>)"

definition NullWriter_exit ::
  "error option \<Rightarrow> null_writer \<Rightarrow> world \<Rightarrow> (null_writer \<times> world) outcome" where
  "NullWriter_exit exc w s =
     (case null_previous_writer w of
        None \<Rightarrow> Raise (AttributeError ''previous_writer'') (w, s)
      | Some p \<Rightarrow> Ok (w\<lparr>null_previous_writer := Some None\<rparr>, s\<lparr>active_writer := p\<rparr>))"

section \<open>Writers in a scope\<close>

datatype any_writer =
    Assembly asm_writer
  | ELF elf_writer
  | MachO macho_writer
  | MSCOFF coff_writer
  | Null null_writer

text \<open>
  What the writers take from outside \<^verbatim>\<open>writer.py\<close> and this theory leaves open:
  \<^verbatim>\<open>os.linesep\<close> and the serialisers of the three images (\<^verbatim>\<open>image.as_bytearray\<close>;
  for ELF after \<^verbatim>\<open>image.symtab.bind()\<close>), whose byte layout is the business of the
  image classes.
\<close>

record externals =
  os_linesep :: string
  symtab_bind :: "elf_image \<Rightarrow> elf_image"
  elf_as_bytearray :: "elf_writer \<Rightarrow> byte list"
  macho_as_bytearray :: "macho_image \<Rightarrow> byte list"
  mscoff_as_bytearray :: "coff_writer \<Rightarrow> byte list"

fun writer_output_path :: "any_writer \<Rightarrow> string option" where
  "writer_output_path (Assembly w) = Some (output_path w)"
| "writer_output_path (ELF w) = Some (output_path w)"
| "writer_output_path (MachO w) = Some (output_path w)"
| "writer_output_path (MSCOFF w) = Some (output_path w)"
| "writer_output_path (Null w) = None"

fun writer_enter :: "ref \<Rightarrow> any_writer \<Rightarrow> world \<Rightarrow> any_writer \<times> world" where
  "writer_enter self (Assembly w) s = map_prod Assembly id (AssemblyWriter_enter self w s)"
| "writer_enter self (ELF w) s = map_prod ELF id (ELFWriter_enter self w s)"
| "writer_enter self (MachO w) s = map_prod MachO id (MachOWriter_enter self w s)"
| "writer_enter self (MSCOFF w) s = map_prod MSCOFF id (MSCOFFWriter_enter self w s)"
| "writer_enter self (Null w) s = map_prod Null id (NullWriter_enter w s)"

fun map_outcome :: "('a \<Rightarrow> 'b) \<Rightarrow> 'a outcome \<Rightarrow> 'b outcome" where
  "map_outcome g (Ok x) = Ok (g x)"
| "map_outcome g (Raise e x) = Raise e (g x)"

fun writer_exit ::
  "externals \<Rightarrow> error option \<Rightarrow> any_writer \<Rightarrow> world \<Rightarrow> (any_writer \<times> world) outcome" where
  "writer_exit ext exc (Assembly w) s = map_outcome (map_prod Assembly id) (AssemblyWriter_exit exc w s)"
| "writer_exit ext exc (ELF w) s =
     map_outcome (map_prod ELF id) (ELFWriter_exit (symtab_bind ext) (elf_as_bytearray ext) exc w s)"
| "writer_exit ext exc (MachO w) s =
     map_outcome (map_prod MachO id) (MachOWriter_exit (macho_as_bytearray ext) exc w s)"
| "writer_exit ext exc (MSCOFF w) s =
     map_outcome (map_prod MSCOFF id) (MSCOFFWriter_exit (mscoff_as_bytearray ext) exc w s)"
| "writer_exit ext exc (Null w) s = map_outcome (map_prod Null id) (NullWriter_exit exc w s)"

text \<open>The null writer has no method \<^verbatim>\<open>add_function\<close>: calling it is an attribute error.\<close>

fun writer_add_function ::
  "externals \<Rightarrow> any_writer \<Rightarrow> py_function \<Rightarrow> world \<Rightarrow> (any_writer \<times> world) outcome" where
  "writer_add_function ext (Assembly w) f s =
     map_outcome (map_prod Assembly id) (AssemblyWriter_add_function (os_linesep ext) w f s)"
| "writer_add_function ext (ELF w) f s =
     map_outcome (\<lambda>w'. (ELF w', s)) (ELFWriter_add_function w f)"
| "writer_add_function ext (MachO w) f s =
     map_outcome (\<lambda>w'. (MachO w', s)) (MachOWriter_add_function w f)"
| "writer_add_function ext (MSCOFF w) f s =
     map_outcome (\<lambda>w'. (MSCOFF w', s)) (MSCOFFWriter_add_function w f)"
| "writer_add_function ext (Null w) f s = Raise (AttributeError ''add_function'') (Null w, s)"

text \<open>
  The body of a \<^verbatim>\<open>with\<close> block: calls of \<^verbatim>\<open>add_function\<close> in order, then, when \<open>exc\<close>
  is \<open>Some e\<close>, a statement that raises \<open>e\<close>. The first exception leaves the block.
\<close>

fun run_block ::
  "externals \<Rightarrow> any_writer \<Rightarrow> py_function list \<Rightarrow> error option \<Rightarrow> world \<Rightarrow>
   (any_writer \<times> world) outcome" where
  "run_block ext w [] exc s = (case exc of None \<Rightarrow> Ok (w, s) | Some e \<Rightarrow> Raise e (w, s))"
| "run_block ext w (f # rest) exc s =
     (case writer_add_function ext w f s of
        Raise e r \<Rightarrow> Raise e r
      | Ok (w1, s1) \<Rightarrow> run_block ext w1 rest exc s1)"

text \<open>
  The \<^verbatim>\<open>with\<close> statement: \<^verbatim>\<open>__enter__\<close>, the block, then \<^verbatim>\<open>__exit__\<close> with the exception
  that left the block, if any. An \<^verbatim>\<open>__exit__\<close> that returns (every one here returns
  \<^verbatim>\<open>None\<close>) lets that exception go on; one that raises replaces it.
\<close>

definition with_writer ::
  "externals \<Rightarrow> ref \<Rightarrow> any_writer \<Rightarrow> py_function list \<Rightarrow> error option \<Rightarrow> world \<Rightarrow>
   (any_writer \<times> world) outcome" where
  "with_writer ext self w calls exc s =
     (case writer_enter self w s of
        (w1, s1) \<Rightarrow>
          (case run_block ext w1 calls exc s1 of
             Ok (w2, s2) \<Rightarrow> writer_exit ext None w2 s2
           | Raise e (w2, s2) \<Rightarrow>
               (case writer_exit ext (Some e) w2 s2 of
                  Ok r \<Rightarrow> Raise e r
                | Raise e' r \<Rightarrow> Raise e' r)))"


section \<open>Notions used to state the properties\<close>

definition is_function_symbol :: "elf_symbol \<Rightarrow> bool" where
  "is_function_symbol s = (binding s = Global \<and> sym_type s = Function)"

definition function_symbols :: "elf_writer \<Rightarrow> elf_symbol list" where
  "function_symbols w = filter is_function_symbol (symtab (image w))"

definition code_length :: "abi_function \<Rightarrow> nat" where
  "code_length f = length (code_content (fn_encode f))"

fun layout :: "nat \<Rightarrow> nat list \<Rightarrow> (int \<times> int) list" where
  "layout off [] = []"
| "layout off (n # ns) = (int off, int n) # layout (off + n) ns"

subsection \<open>Sample inputs\<close>

text \<open>
  Two targets and two functions: one function without constants, one that loads an
  8-byte constant through a single relocation.
\<close>

definition abi64 :: abi where
  "abi64 = \<lparr>abi_endianness = Little, elf_bitness = 64\<rparr>"

definition abi32 :: abi where
  "abi32 = \<lparr>abi_endianness = Little, elf_bitness = 32\<rparr>"

definition fn_plain :: abi_function where
  "fn_plain =
     \<lparr>fn_name = ''f'',
      fn_encode = \<lparr>code_content = [0x31, 0xC0, 0xC3], const_content = [],
                   const_symbols = [], code_relocations = [],
                   as_bytearray = [0x31, 0xC0, 0xC3]\<rparr>,
      fn_format = (\<lambda>d. ''f:'')\<rparr>"

definition fn_const :: abi_function where
  "fn_const =
     \<lparr>fn_name = ''g'',
      fn_encode = \<lparr>code_content = [0xF2, 0x0F, 0x10, 0x05, 0, 0, 0, 0, 0xC3],
                   const_content = [0, 0, 0, 0, 0, 0, 0xF0, 0x3F],
                   const_symbols = [\<lparr>cs_name = ''c0'', cs_offset = 0, cs_size = 8\<rparr>],
                   code_relocations = [\<lparr>r_offset = 4, r_symbol = ''c0''\<rparr>],
                   as_bytearray = [0xF2, 0x0F, 0x10, 0x05, 0, 0, 0, 0, 0xC3,
                                   0, 0, 0, 0, 0, 0, 0xF0, 0x3F]\<rparr>,
      fn_format = (\<lambda>d. ''g:'')\<rparr>"

subsection \<open>Attributes of a writer of any class\<close>

fun writer_previous :: "any_writer \<Rightarrow> ref option" where
  "writer_previous (Assembly w) = previous_writer w"
| "writer_previous (ELF w) = previous_writer w"
| "writer_previous (MachO w) = previous_writer w"
| "writer_previous (MSCOFF w) = previous_writer w"
| "writer_previous (Null w) = (case null_previous_writer w of None \<Rightarrow> None | Some p \<Rightarrow> p)"

fun writer_output_file :: "any_writer \<Rightarrow> string option" where
  "writer_output_file (Assembly w) = output_file w"
| "writer_output_file (ELF w) = output_file w"
| "writer_output_file (MachO w) = output_file w"
| "writer_output_file (MSCOFF w) = output_file w"
| "writer_output_file (Null w) = None"

fun null_entered :: "any_writer \<Rightarrow> bool" where
  "null_entered (Null w) = (null_previous_writer w \<noteq> None)"
| "null_entered w = True"

text \<open>
  A writer inside its scope: its file is open under the name \<open>output_path\<close> and is on
  disk (a null writer has no file; it has saved the slot).
\<close>

definition in_scope :: "any_writer \<Rightarrow> world \<Rightarrow> bool" where
  "in_scope w s =
     (case writer_output_path w of
        None \<Rightarrow> null_entered w
      | Some p \<Rightarrow> writer_output_file w = Some p \<and> fs s p \<noteq> None)"

fun supports_add_function :: "any_writer \<Rightarrow> bool" where
  "supports_add_function (Null w) = False"
| "supports_add_function w = True"

definition sample_externals :: externals where
  "sample_externals =
     \<lparr>os_linesep = [CHR 0x0A], symtab_bind = (\<lambda>img. img),
      elf_as_bytearray = (\<lambda>w. sec_content (text_section w)),
      macho_as_bytearray = (\<lambda>img. macho_content (macho_text_section img)),
      mscoff_as_bytearray = (\<lambda>w. coff_content (cw_text_section w))\<rparr>"

definition sample_world :: world where
  "sample_world = \<lparr>active_writer = Some 7, fs = [''out.o'' \<mapsto> [1, 2, 3]]\<rparr>"

subsection \<open>The lazily bound sections\<close>

text \<open>
  The writer and its image agree on the two lazy sections: a section name is among the
  bound sections exactly when the writer holds the section, and it is there once.
\<close>

definition lazy_sections_ok :: "elf_writer \<Rightarrow> bool" where
  "lazy_sections_ok w =
     ((''.rodata'' \<in> set (img_sections (image w))) = (rodata_section w \<noteq> None) \<and>
      (''.rela.text'' \<in> set (img_sections (image w))) = (text_rela_section w \<noteq> None) \<and>
      count_list (img_sections (image w)) ''.rodata'' \<le> 1 \<and>
      count_list (img_sections (image w)) ''.rela.text'' \<le> 1)"

subsection \<open>Reading the relocation section back\<close>

text \<open>
  The content of \<^verbatim>\<open>.rela.text\<close> (empty while the section does not exist), and its
  entries read as triples of offset, info and signed addend, 24 bytes each.
\<close>

definition rela_content :: "elf_writer \<Rightarrow> byte list" where
  "rela_content w = (case text_rela_section w of None \<Rightarrow> [] | Some s \<Rightarrow> sec_content s)"

definition decode_entry :: "endianness \<Rightarrow> byte list \<Rightarrow> int \<times> int \<times> int" where
  "decode_entry e bs =
     (int (decode_uint e (take 8 bs)),
      int (decode_uint e (take 8 (drop 8 bs))),
      decode_sint64 e (take 8 (drop 16 bs)))"

fun decode_entries :: "endianness \<Rightarrow> nat \<Rightarrow> byte list \<Rightarrow> (int \<times> int \<times> int) list" where
  "decode_entries e 0 bs = []"
| "decode_entries e (Suc n) bs = decode_entry e (take 24 bs) # decode_entries e n (drop 24 bs)"

definition rela_entries :: "endianness \<Rightarrow> byte list \<Rightarrow> (int \<times> int \<times> int) list" where
  "rela_entries e bs = decode_entries e (length bs div 24) bs"

text \<open>
  \<open>const_symbol_at before img i name\<close>: entry \<open>i\<close> of the symbol table of \<open>img\<close> was
  added after the state \<open>before\<close>, is a Local/DataObject symbol, and its name, interned
  after \<open>before\<close> as well, is \<open>name\<close>.
\<close>

definition const_symbol_at :: "elf_image \<Rightarrow> elf_image \<Rightarrow> nat \<Rightarrow> string \<Rightarrow> bool" where
  "const_symbol_at before img i name =
     (length (symtab before) \<le> i \<and> i < length (symtab img) \<and>
      binding (symtab img ! i) = Local \<and> sym_type (symtab img ! i) = DataObject \<and>
      length (strtab before) \<le> name_index (symtab img ! i) \<and>
      name_index (symtab img ! i) < length (strtab img) \<and>
      strtab img ! name_index (symtab img ! i) = name)"

definition entry_bytes :: "endianness \<Rightarrow> int \<Rightarrow> nat \<Rightarrow> byte list" where
  "entry_bytes e off i = (case encode_relocation e off i of Inl err \<Rightarrow> [] | Inr b \<Rightarrow> b)"

text \<open>
  \<open>emitted e m rs w r k\<close>: the relocation loop, started in \<open>w\<close> with the symbol map
  \<open>m\<close>, ended in \<open>r\<close> after appending the entries of the first \<open>k\<close> relocations.
\<close>

definition emitted ::
  "endianness \<Rightarrow> (string \<rightharpoonup> nat) \<Rightarrow> code_relocation list \<Rightarrow> elf_writer \<Rightarrow>
   elf_writer outcome \<Rightarrow> nat \<Rightarrow> bool" where
  "emitted e m rs w r k =
     (k \<le> length rs \<and>
      (raised r = None \<longrightarrow> k = length rs) \<and>
      rela_content (state_of r) =
        rela_content w @
          concat (map (\<lambda>rel. entry_bytes e (r_offset rel) (the (m (r_symbol rel)))) (take k rs)) \<and>
      (\<forall>rel\<in>set (take k rs).
         m (r_symbol rel) \<noteq> None \<and>
         encode_relocation e (r_offset rel) (the (m (r_symbol rel))) =
           Inr (entry_bytes e (r_offset rel) (the (m (r_symbol rel))))) \<and>
      image (state_of r) = image w)"

definition sample_writer :: elf_writer where
  "sample_writer =
     state_of (ELFWriter_add_function (ELFWriter_init ''out.o'' abi64 None) (ABIFunction fn_plain))"

subsection \<open>Relocations without a constant symbol\<close>

text \<open>
  A relocation is unresolved when no constant symbol of the same encoded function has the
  name it refers to. Two more sample functions: one whose constant symbol comes without
  constant data and whose relocation names a symbol it does not have, and one that refers
  to the constant of another function.
\<close>

definition fn_dangling :: abi_function where
  "fn_dangling =
     \<lparr>fn_name = ''h'',
      fn_encode = \<lparr>code_content = [0xC3], const_content = [],
                   const_symbols = [\<lparr>cs_name = ''c0'', cs_offset = 0, cs_size = 0\<rparr>],
                   code_relocations = [\<lparr>r_offset = 0, r_symbol = ''missing''\<rparr>],
                   as_bytearray = [0xC3]\<rparr>,
      fn_format = (\<lambda>d. ''h:'')\<rparr>"

definition fn_reuse :: abi_function where
  "fn_reuse =
     \<lparr>fn_name = ''k'',
      fn_encode = \<lparr>code_content = [0xF2, 0x0F, 0x10, 0x05, 0, 0, 0, 0, 0xC3],
                   const_content = [], const_symbols = [],
                   code_relocations = [\<lparr>r_offset = 4, r_symbol = ''c0''\<rparr>],
                   as_bytearray = [0xF2, 0x0F, 0x10, 0x05, 0, 0, 0, 0, 0xC3]\<rparr>,
      fn_format = (\<lambda>d. ''k:'')\<rparr>"

definition unresolved :: "encoded_function \<Rightarrow> code_relocation \<Rightarrow> bool" where
  "unresolved ef rel = (r_symbol rel \<notin> cs_name ` set (const_symbols ef))"

definition sample_writer2 :: elf_writer where
  "sample_writer2 =
     state_of (ELFWriter_add_function (ELFWriter_init ''out.o'' abi64 None) (ABIFunction fn_const))"

section \<open>Properties\<close>

lemmas elf_defs = ELFWriter_add_function_def ELFWriter_init_def Image_init_def bind_section_def
  new_section_def section_append_def add_rodata_def strtab_add_def symtab_add_def
  bind_text_rela_def add_function_symbol_def encode_relocation_def rela_append_def
  R_X86_64_PC32_def

lemma outcome_Ok: "raised x = None \<Longrightarrow> x = Ok (state_of x)"
  by (cases x) simp_all

lemma sample_calls_ok:
  "raised (ELFWriter_add_functions (ELFWriter_init ''out.o'' abi64 None)
     (map ABIFunction [fn_plain, fn_const])) = None"
  by (simp add: elf_defs abi64_def fn_plain_def fn_const_def uint64_def)

subsection \<open>What one call leaves untouched\<close>

lemma add_rodata_frame:
  "add_rodata w ef = (w', off) \<Longrightarrow>
     text_section w' = text_section w \<and> symtab (image w') = symtab (image w)"
  by (auto simp: add_rodata_def bind_section_def Let_def split: if_splits option.splits)

lemma add_const_symbols_frame:
  "add_const_symbols off cs w m = Ok (w', m') \<Longrightarrow>
     text_section w' = text_section w \<and>
     filter is_function_symbol (symtab (image w')) = filter is_function_symbol (symtab (image w))"
proof (induction cs arbitrary: w m)
  case Nil
  then show ?case by simp
next
  case (Cons c cs)
  then show ?case
    by (auto simp: strtab_add_def symtab_add_def Let_def is_function_symbol_def
        split: option.splits)
qed

lemma bind_text_rela_frame:
  "text_section (bind_text_rela w) = text_section w \<and>
   symtab (image (bind_text_rela w)) = symtab (image w)"
  by (auto simp: bind_text_rela_def bind_section_def Let_def split: option.splits)

lemma add_relocations_frame:
  "add_relocations e m rs w = Ok w' \<Longrightarrow>
     text_section w' = text_section w \<and> image w' = image w"
proof (induction rs arbitrary: w)
  case Nil
  then show ?case by simp
next
  case (Cons r rs)
  then show ?case
    by (auto split: option.splits sum.splits)
qed

lemma add_function_symbol_text:
  "text_section (add_function_symbol w n off len) = text_section w"
  by (simp add: add_function_symbol_def strtab_add_def symtab_add_def Let_def)

lemma add_function_symbol_symtab:
  "symtab (image (add_function_symbol w n off len)) =
     symtab (image w) @
       [\<lparr>name_index = length (strtab (image w)), sym_value = int off,
         sym_content_size = int len, section_index = sec_index (text_section w),
         binding = Global, sym_type = Function\<rparr>]"
  by (simp add: add_function_symbol_def strtab_add_def symtab_add_def Let_def)

text \<open>The stages of a call that completes.\<close>

lemma ELFWriter_add_function_stages:
  assumes "ELFWriter_add_function w (ABIFunction f) = Ok w'"
  obtains w2 off w3 m w4 where
    "add_rodata (w\<lparr>text_section :=
        section_append (text_section w) (code_content (fn_encode f))\<rparr>) (fn_encode f) = (w2, off)"
    "add_const_symbols off (const_symbols (fn_encode f)) w2 Map.empty = Ok (w3, m)"
    "(if code_relocations (fn_encode f) \<noteq> []
      then add_relocations (abi_endianness (elf_abi w3)) m
             (code_relocations (fn_encode f)) (bind_text_rela w3)
      else Ok w3) = Ok w4"
    "w' = add_function_symbol w4 (fn_name f) (length (sec_content (text_section w)))
            (length (code_content (fn_encode f)))"
proof -
  obtain w2 off where r: "add_rodata (w\<lparr>text_section :=
        section_append (text_section w) (code_content (fn_encode f))\<rparr>) (fn_encode f) = (w2, off)"
    by (cases "add_rodata (w\<lparr>text_section :=
        section_append (text_section w) (code_content (fn_encode f))\<rparr>) (fn_encode f)")
  from assms r obtain w3 m where
    c: "add_const_symbols off (const_symbols (fn_encode f)) w2 Map.empty = Ok (w3, m)"
    by (auto simp: ELFWriter_add_function_def Let_def split: outcome.splits prod.splits)
  from assms r c obtain w4 where
    "(if code_relocations (fn_encode f) \<noteq> []
      then add_relocations (abi_endianness (elf_abi w3)) m
             (code_relocations (fn_encode f)) (bind_text_rela w3)
      else Ok w3) = Ok w4"
    "w' = add_function_symbol w4 (fn_name f) (length (sec_content (text_section w)))
            (length (code_content (fn_encode f)))"
    by (auto simp: ELFWriter_add_function_def Let_def split: outcome.splits prod.splits)
  with r c show ?thesis by (rule that)
qed

subsection \<open>Layout of the text section\<close>

lemma ELFWriter_add_function_layout:
  assumes "ELFWriter_add_function w (ABIFunction f) = Ok w'"
  shows "sec_content (text_section w') =
           sec_content (text_section w) @ code_content (fn_encode f)"
    and "map (\<lambda>s. (sym_value s, sym_content_size s)) (function_symbols w') =
           map (\<lambda>s. (sym_value s, sym_content_size s)) (function_symbols w) @
             [(int (length (sec_content (text_section w))), int (code_length f))]"
proof -
  from assms obtain w2 off w3 m w4 where
    r: "add_rodata (w\<lparr>text_section :=
        section_append (text_section w) (code_content (fn_encode f))\<rparr>) (fn_encode f) = (w2, off)"
    and c: "add_const_symbols off (const_symbols (fn_encode f)) w2 Map.empty = Ok (w3, m)"
    and rel: "(if code_relocations (fn_encode f) \<noteq> []
           then add_relocations (abi_endianness (elf_abi w3)) m
                  (code_relocations (fn_encode f)) (bind_text_rela w3)
           else Ok w3) = Ok w4"
    and w': "w' = add_function_symbol w4 (fn_name f) (length (sec_content (text_section w)))
                    (length (code_content (fn_encode f)))"
    by (rule ELFWriter_add_function_stages)
  have t2: "text_section w2 =
      section_append (text_section w) (code_content (fn_encode f))"
    and s2: "symtab (image w2) = symtab (image w)"
    using add_rodata_frame [OF r] by auto
  have t3: "text_section w3 = text_section w2"
    and s3: "filter is_function_symbol (symtab (image w3)) =
             filter is_function_symbol (symtab (image w2))"
    using add_const_symbols_frame [OF c] by auto
  have t4: "text_section w4 = text_section w3" and s4: "symtab (image w4) = symtab (image w3)"
    using rel add_relocations_frame [of _ _ _ "bind_text_rela w3" w4] bind_text_rela_frame [of w3]
    by (auto split: if_splits)
  show "sec_content (text_section w') =
           sec_content (text_section w) @ code_content (fn_encode f)"
    by (simp add: w' add_function_symbol_text t4 t3 t2 section_append_def)
  show "map (\<lambda>s. (sym_value s, sym_content_size s)) (function_symbols w') =
           map (\<lambda>s. (sym_value s, sym_content_size s)) (function_symbols w) @
             [(int (length (sec_content (text_section w))), int (code_length f))]"
    by (simp add: w' function_symbols_def add_function_symbol_symtab s4 s3 s2
        is_function_symbol_def code_length_def)
qed

lemma ELFWriter_add_functions_layout:
  "ELFWriter_add_functions w (map ABIFunction funs) = Ok w' \<Longrightarrow>
     sec_content (text_section w') =
       sec_content (text_section w) @ concat (map (\<lambda>f. code_content (fn_encode f)) funs) \<and>
     map (\<lambda>s. (sym_value s, sym_content_size s)) (function_symbols w') =
       map (\<lambda>s. (sym_value s, sym_content_size s)) (function_symbols w) @
         layout (length (sec_content (text_section w))) (map code_length funs)"
proof (induction funs arbitrary: w)
  case Nil
  then show ?case by simp
next
  case (Cons f funs)
  from Cons.prems obtain w1 where
    one: "ELFWriter_add_function w (ABIFunction f) = Ok w1" and
    more: "ELFWriter_add_functions w1 (map ABIFunction funs) = Ok w'"
    by (auto split: outcome.splits)
  show ?case
    using Cons.IH [OF more] ELFWriter_add_function_layout [OF one]
    by (simp add: code_length_def)
qed

lemma layout_nth:
  "layout off ns =
     map (\<lambda>i. (int (off + sum_list (take i ns)), int (ns ! i))) [0..<length ns]"
proof (induction ns arbitrary: off)
  case Nil
  then show ?case by simp
next
  case (Cons n ns)
  have "map (\<lambda>i. (int (off + sum_list (take i (n # ns))), int ((n # ns) ! i)))
          [0..<length (n # ns)]
      = (int off, int n) #
        map (\<lambda>i. (int (off + sum_list (take (Suc i) (n # ns))), int ((n # ns) ! Suc i)))
          [0..<length ns]"
    by (simp add: upt_conv_Cons map_Suc_upt [symmetric] del: upt_Suc)
  then show ?case using Cons.IH [of "off + n"] by (simp add: add.assoc)
qed

lemma fresh_text: "sec_content (text_section (ELFWriter_init p a ip)) = []"
  and fresh_function_symbols: "function_symbols (ELFWriter_init p a ip) = []"
  by (simp_all add: ELFWriter_init_def bind_section_def Image_init_def new_section_def
      function_symbols_def)

text \<open>
  Claim C1. After any sequence of \<^verbatim>\<open>add_function\<close> calls on a new ELF writer (the calls
  that complete: an exception ends the scope), the Global/Function symbols of the symbol
  table are, in order, one per function; the value of the \<open>i\<close>-th is the total length of
  the code of the functions added before it, which is the length of \<^verbatim>\<open>.text\<close> when its
  call began, and its size is the length of its own code. The text section holds the
  code of the functions, back to back.
\<close>

theorem function_symbols_gapless:
  assumes "ELFWriter_add_functions (ELFWriter_init path a input_path) (map ABIFunction funs) = Ok w"
  shows "map (\<lambda>s. (sym_value s, sym_content_size s)) (function_symbols w) =
           map (\<lambda>i. (int (sum_list (map code_length (take i funs))), int (code_length (funs ! i))))
             [0..<length funs]
         \<and> sec_content (text_section w) = concat (map (\<lambda>f. code_content (fn_encode f)) funs)"
proof -
  have "map (\<lambda>s. (sym_value s, sym_content_size s)) (function_symbols w) =
          layout 0 (map code_length funs)"
    and "sec_content (text_section w) = concat (map (\<lambda>f. code_content (fn_encode f)) funs)"
    using ELFWriter_add_functions_layout [OF assms]
    by (simp_all add: fresh_text fresh_function_symbols)
  then show ?thesis
    by (simp add: layout_nth take_map)
qed

theorem function_symbols_gapless_witness:
  "map (\<lambda>s. (sym_value s, sym_content_size s))
     (function_symbols (state_of (ELFWriter_add_functions (ELFWriter_init ''out.o'' abi64 None)
        (map ABIFunction [fn_plain, fn_const])))) = [(0, 3), (3, 9)]"
  using function_symbols_gapless [OF outcome_Ok [OF sample_calls_ok]]
  by (simp add: code_length_def fn_plain_def fn_const_def upt_conv_Cons)

subsection \<open>Calls keep the attributes of the scope\<close>

lemma ELF_add_const_symbols_writer:
  "add_const_symbols off cs w m = r \<Longrightarrow>
     previous_writer (fst (state_of r)) = previous_writer w \<and>
     output_file (fst (state_of r)) = output_file w \<and>
     output_path (fst (state_of r)) = output_path w"
proof (induction cs arbitrary: w m r)
  case Nil
  then show ?case by auto
next
  case (Cons c cs)
  then show ?case
    by (auto simp: strtab_add_def symtab_add_def Let_def split: option.splits)
qed

lemma ELF_add_relocations_writer:
  "add_relocations e m rs w = r \<Longrightarrow>
     previous_writer (state_of r) = previous_writer w \<and>
     output_file (state_of r) = output_file w \<and>
     output_path (state_of r) = output_path w"
proof (induction rs arbitrary: w r)
  case Nil
  then show ?case by auto
next
  case (Cons c cs)
  then show ?case
    by (auto split: option.splits sum.splits)
qed

lemma add_rodata_writer:
  "previous_writer (fst (add_rodata w ef)) = previous_writer w \<and>
   output_file (fst (add_rodata w ef)) = output_file w \<and>
   output_path (fst (add_rodata w ef)) = output_path w"
  by (auto simp: add_rodata_def bind_section_def Let_def split: option.splits)

lemma bind_text_rela_writer:
  "previous_writer (bind_text_rela w) = previous_writer w \<and>
   output_file (bind_text_rela w) = output_file w \<and>
   output_path (bind_text_rela w) = output_path w"
  by (auto simp: bind_text_rela_def bind_section_def Let_def split: option.splits)

lemma add_function_symbol_writer:
  "previous_writer (add_function_symbol w n a b) = previous_writer w \<and>
   output_file (add_function_symbol w n a b) = output_file w \<and>
   output_path (add_function_symbol w n a b) = output_path w"
  by (auto simp: add_function_symbol_def strtab_add_def symtab_add_def Let_def)

lemma ELFWriter_add_function_writer:
  "previous_writer (state_of (ELFWriter_add_function w f)) = previous_writer w \<and>
   output_file (state_of (ELFWriter_add_function w f)) = output_file w \<and>
   output_path (state_of (ELFWriter_add_function w f)) = output_path w"
proof (cases f)
  case (PlainFunction n)
  then show ?thesis by (simp add: ELFWriter_add_function_def)
next
  case (ABIFunction g)
  define w1 where "w1 = w\<lparr>text_section :=
      section_append (text_section w) (code_content (fn_encode g))\<rparr>"
  obtain w2 off where r: "add_rodata w1 (fn_encode g) = (w2, off)"
    by (cases "add_rodata w1 (fn_encode g)")
  have k2: "previous_writer w2 = previous_writer w \<and> output_file w2 = output_file w \<and>
            output_path w2 = output_path w"
    using add_rodata_writer [of w1 "fn_encode g"] r by (simp add: w1_def)
  define c where "c = add_const_symbols off (const_symbols (fn_encode g)) w2 Map.empty"
  have k3: "previous_writer (fst (state_of c)) = previous_writer w \<and>
            output_file (fst (state_of c)) = output_file w \<and>
            output_path (fst (state_of c)) = output_path w"
    using ELF_add_const_symbols_writer [OF c_def [symmetric]] k2 by simp
  show ?thesis
  proof (cases c)
    case (Raise e s)
    then show ?thesis
      using k3 r ABIFunction
      by (cases s) (simp add: ELFWriter_add_function_def Let_def w1_def [symmetric] c_def [symmetric])
  next
    case (Ok s)
    obtain w3 m where s: "s = (w3, m)" by (cases s)
    define d where "d = (if code_relocations (fn_encode g) \<noteq> []
        then add_relocations (abi_endianness (elf_abi w3)) m
               (code_relocations (fn_encode g)) (bind_text_rela w3)
        else Ok w3)"
    have k4: "previous_writer (state_of d) = previous_writer w \<and>
            output_file (state_of d) = output_file w \<and>
            output_path (state_of d) = output_path w"
      using ELF_add_relocations_writer [of _ _ _ "bind_text_rela w3", OF refl]
        bind_text_rela_writer [of w3] k3 Ok s
      by (simp add: d_def)
    show ?thesis
      using k4 r ABIFunction Ok s add_function_symbol_writer
      by (cases d)
        (simp_all add: ELFWriter_add_function_def Let_def w1_def [symmetric] c_def [symmetric]
          d_def [symmetric])
  qed
qed

lemma file_write_exists: "(file_write files name bytes p = None) = (files p = None)"
  by (auto simp: file_write_def split: option.splits)

lemma writer_add_function_frame:
  assumes "writer_add_function ext w f s = r"
  shows "writer_previous (fst (state_of r)) = writer_previous w"
    and "writer_output_file (fst (state_of r)) = writer_output_file w"
    and "writer_output_path (fst (state_of r)) = writer_output_path w"
    and "null_entered (fst (state_of r)) = null_entered w"
    and "active_writer (snd (state_of r)) = active_writer s"
    and "(fs (snd (state_of r)) p = None) = (fs s p = None)"
proof -
  have "writer_previous (fst (state_of r)) = writer_previous w \<and>
        writer_output_file (fst (state_of r)) = writer_output_file w \<and>
        writer_output_path (fst (state_of r)) = writer_output_path w \<and>
        null_entered (fst (state_of r)) = null_entered w \<and>
        active_writer (snd (state_of r)) = active_writer s \<and>
        (fs (snd (state_of r)) p = None) = (fs s p = None)"
  proof (cases w)
    case (Assembly a)
    then show ?thesis using assms
      by (cases f)
        (auto simp: AssemblyWriter_add_function_def Let_def file_write_exists split: option.splits)
  next
    case (ELF a)
    then show ?thesis
      using assms ELFWriter_add_function_writer [of a f]
      by (cases "ELFWriter_add_function a f") auto
  next
    case (MachO a)
    then show ?thesis using assms
      by (cases f) (auto simp: MachOWriter_add_function_def Let_def)
  next
    case (MSCOFF a)
    then show ?thesis using assms
      by (cases f) (auto simp: MSCOFFWriter_add_function_def Let_def)
  next
    case (Null a)
    then show ?thesis using assms by auto
  qed
  then show "writer_previous (fst (state_of r)) = writer_previous w"
    and "writer_output_file (fst (state_of r)) = writer_output_file w"
    and "writer_output_path (fst (state_of r)) = writer_output_path w"
    and "null_entered (fst (state_of r)) = null_entered w"
    and "active_writer (snd (state_of r)) = active_writer s"
    and "(fs (snd (state_of r)) p = None) = (fs s p = None)"
    by simp_all
qed

lemma in_scope_add_function:
  "in_scope (fst (state_of (writer_add_function ext w f s)))
            (snd (state_of (writer_add_function ext w f s))) = in_scope w s"
  using writer_add_function_frame [OF refl, of ext w f s]
  by (auto simp: in_scope_def split: option.splits)

lemma run_block_frame:
  "writer_previous (fst (state_of (run_block ext w calls exc s))) = writer_previous w \<and>
   active_writer (snd (state_of (run_block ext w calls exc s))) = active_writer s \<and>
   writer_output_path (fst (state_of (run_block ext w calls exc s))) = writer_output_path w \<and>
   in_scope (fst (state_of (run_block ext w calls exc s)))
            (snd (state_of (run_block ext w calls exc s))) = in_scope w s"
proof (induction calls arbitrary: w s)
  case Nil
  then show ?case by (cases exc) auto
next
  case (Cons f calls)
  show ?case
  proof (cases "writer_add_function ext w f s")
    case (Ok r)
    obtain w1 s1 where r: "r = (w1, s1)" by (cases r)
    show ?thesis
      using Cons.IH [of w1 s1] writer_add_function_frame(1,3,5) [OF refl, of ext w f s]
        in_scope_add_function [of ext w f s] Ok r
      by simp
  next
    case (Raise e r)
    then show ?thesis
      using writer_add_function_frame(1,3,5) [OF refl, of ext w f s]
        in_scope_add_function [of ext w f s]
      by simp
  qed
qed

lemma writer_enter_scope:
  "writer_previous (fst (writer_enter self w s)) = active_writer s \<and>
   writer_output_path (fst (writer_enter self w s)) = writer_output_path w \<and>
   in_scope (fst (writer_enter self w s)) (snd (writer_enter self w s)) \<and>
   active_writer (snd (writer_enter self w s)) = (case w of Null n \<Rightarrow> None | _ \<Rightarrow> Some self)"
  by (cases w)
    (auto simp: AssemblyWriter_enter_def ELFWriter_enter_def MachOWriter_enter_def
      MSCOFFWriter_enter_def NullWriter_enter_def in_scope_def Let_def file_open_def
      file_write_def)

lemma writer_exit_slot:
  "in_scope w s \<Longrightarrow>
     active_writer (snd (state_of (writer_exit ext exc w s))) = writer_previous w"
  by (cases w; cases exc)
    (auto simp: AssemblyWriter_exit_def ELFWriter_exit_def MachOWriter_exit_def
      MSCOFFWriter_exit_def NullWriter_exit_def in_scope_def Let_def os_unlink_def
      split: option.splits)

lemma writer_exit_normal:
  "in_scope w s \<Longrightarrow> writer_output_path w = Some p \<Longrightarrow>
     raised (writer_exit ext None w s) = None \<and>
     fs (snd (state_of (writer_exit ext None w s))) p \<noteq> None"
  by (cases w)
    (auto simp: AssemblyWriter_exit_def ELFWriter_exit_def MachOWriter_exit_def
      MSCOFFWriter_exit_def in_scope_def Let_def file_write_exists)

lemma writer_exit_abort:
  "in_scope w s \<Longrightarrow> writer_output_path w = Some p \<Longrightarrow>
     raised (writer_exit ext (Some e) w s) = Some e \<and>
     fs (snd (state_of (writer_exit ext (Some e) w s))) p = None"
  by (cases w)
    (auto simp: AssemblyWriter_exit_def ELFWriter_exit_def MachOWriter_exit_def
      MSCOFFWriter_exit_def in_scope_def Let_def os_unlink_def)

text \<open>
  Claim C5. For a writer of any class and any value of the slot \<^verbatim>\<open>active_writer\<close>,
  a whole scope (entry, any calls of \<^verbatim>\<open>add_function\<close>, a block that ends normally or
  with an exception, exit) leaves the slot as it was before the scope: the value saved
  at entry is put back at exit. Inside the scope the slot holds the writer itself, or
  \<^verbatim>\<open>None\<close> for the null writer. So when writer A is active, opening and closing writer B
  or a null writer leaves A active again.
\<close>

theorem scope_restores_active_writer:
  "active_writer (snd (state_of (with_writer ext self w calls exc s))) = active_writer s
   \<and> active_writer (snd (writer_enter self w s)) = (case w of Null n \<Rightarrow> None | _ \<Rightarrow> Some self)"
proof -
  obtain w1 s1 where en: "writer_enter self w s = (w1, s1)"
    by (cases "writer_enter self w s")
  have e1: "writer_previous w1 = active_writer s" "in_scope w1 s1"
    using writer_enter_scope [of self w s] en by simp_all
  define b where "b = run_block ext w1 calls exc s1"
  obtain w2 s2 where st: "state_of b = (w2, s2)" by (cases "state_of b")
  have b2: "writer_previous w2 = active_writer s" "in_scope w2 s2"
    using run_block_frame [of ext w1 calls exc s1] e1 st by (simp_all add: b_def)
  have x: "active_writer (snd (state_of (writer_exit ext x w2 s2))) = active_writer s" for x
    using writer_exit_slot [OF b2(2)] b2(1) by simp
  have "active_writer (snd (state_of (with_writer ext self w calls exc s))) = active_writer s"
  proof (cases b)
    case (Ok r)
    then show ?thesis using st x [of None] en
      by (simp add: with_writer_def b_def [symmetric])
  next
    case (Raise e r)
    then show ?thesis using st x [of "Some e"] en
      by (cases "writer_exit ext (Some e) w2 s2")
        (simp_all add: with_writer_def b_def [symmetric])
  qed
  then show ?thesis using writer_enter_scope [of self w s] by simp
qed

text \<open>
  Claim C2. For every writer with an output file (assembly, ELF, Mach-O, MS-COFF): the
  exception that leaves the \<^verbatim>\<open>with\<close> statement is exactly the exception that left the
  block, raised by one of the \<^verbatim>\<open>add_function\<close> calls or after them (none when the block
  ends normally); and after the scope there is no file at \<open>output_path\<close> exactly when the
  block raised. An aborted scope removes the file, also one that was there before, and
  only a scope that ends without error leaves a file.
\<close>

theorem scope_abort_removes_file:
  assumes "writer_output_path w = Some p"
  shows "raised (with_writer ext self w calls exc s) =
           raised (run_block ext (fst (writer_enter self w s)) calls exc
                     (snd (writer_enter self w s)))
         \<and> (fs (snd (state_of (with_writer ext self w calls exc s))) p = None) =
           (raised (run_block ext (fst (writer_enter self w s)) calls exc
                     (snd (writer_enter self w s))) \<noteq> None)"
proof -
  obtain w1 s1 where en: "writer_enter self w s = (w1, s1)"
    by (cases "writer_enter self w s")
  have e1: "writer_output_path w1 = Some p" "in_scope w1 s1"
    using writer_enter_scope [of self w s] en assms by simp_all
  define b where "b = run_block ext w1 calls exc s1"
  obtain w2 s2 where st: "state_of b = (w2, s2)" by (cases "state_of b")
  have b2: "writer_output_path w2 = Some p" "in_scope w2 s2"
    using run_block_frame [of ext w1 calls exc s1] e1 st by (simp_all add: b_def)
  show ?thesis
  proof (cases b)
    case (Ok r)
    then show ?thesis using st en writer_exit_normal [OF b2(2) b2(1), of ext]
      by (simp add: with_writer_def b_def [symmetric])
  next
    case (Raise e r)
    then show ?thesis using st en writer_exit_abort [OF b2(2) b2(1), of ext e]
      by (cases "writer_exit ext (Some e) w2 s2")
        (simp_all add: with_writer_def b_def [symmetric])
  qed
qed

lemma sample_block_raises:
  "raised (run_block sample_externals
            (fst (writer_enter 8 (ELF (ELFWriter_init ''out.o'' abi64 None)) sample_world))
            [ABIFunction fn_plain] (Some (OtherError ''interrupted''))
            (snd (writer_enter 8 (ELF (ELFWriter_init ''out.o'' abi64 None)) sample_world)))
     = Some (OtherError ''interrupted'')"
  by (simp add: elf_defs ELFWriter_enter_def abi64_def fn_plain_def sample_world_def)

theorem scope_abort_removes_file_witness:
  "raised (with_writer sample_externals 8 (ELF (ELFWriter_init ''out.o'' abi64 None))
             [ABIFunction fn_plain] (Some (OtherError ''interrupted'')) sample_world)
     = Some (OtherError ''interrupted'')
   \<and> fs (snd (state_of (with_writer sample_externals 8 (ELF (ELFWriter_init ''out.o'' abi64 None))
             [ABIFunction fn_plain] (Some (OtherError ''interrupted'')) sample_world))) ''out.o''
     = None"
proof -
  have p: "writer_output_path (ELF (ELFWriter_init ''out.o'' abi64 None)) = Some ''out.o''"
    by (simp add: ELFWriter_init_def Let_def bind_section_def)
  from scope_abort_removes_file [OF p, of sample_externals 8 "[ABIFunction fn_plain]"
      "Some (OtherError ''interrupted'')" sample_world, unfolded sample_block_raises]
  show ?thesis by simp
qed

subsection \<open>The assertion on the function\<close>

lemma encode_relocation_error:
  "encode_relocation e off i = Inl err \<Longrightarrow> err = AssertionError ''not an unsigned 64-bit integer''"
  by (auto simp: encode_relocation_def uint64_def Let_def split: sum.splits if_splits)

lemma add_const_symbols_error:
  "add_const_symbols off cs w m = Raise err r \<Longrightarrow> err = AttributeError ''index''"
proof (induction cs arbitrary: w m)
  case Nil
  then show ?case by simp
next
  case (Cons c cs)
  then show ?case
    by (auto simp: strtab_add_def symtab_add_def Let_def split: option.splits)
qed

lemma add_relocations_error:
  "add_relocations e m rs w = Raise err r \<Longrightarrow> err \<noteq> AssertionError assert_message"
proof (induction rs arbitrary: w)
  case Nil
  then show ?case by simp
next
  case (Cons c cs)
  then show ?case
    by (auto simp: assert_message_def split: option.splits sum.splits
        dest: encode_relocation_error)
qed

lemma ELFWriter_bound_function_passes_assertion:
  "raised (ELFWriter_add_function w (ABIFunction f)) \<noteq> Some (AssertionError assert_message)"
proof -
  obtain w2 off where r: "add_rodata (w\<lparr>text_section :=
        section_append (text_section w) (code_content (fn_encode f))\<rparr>) (fn_encode f) = (w2, off)"
    by (cases "add_rodata (w\<lparr>text_section :=
        section_append (text_section w) (code_content (fn_encode f))\<rparr>) (fn_encode f)")
  show ?thesis
  proof (cases "add_const_symbols off (const_symbols (fn_encode f)) w2 Map.empty")
    case (Raise e s)
    then show ?thesis using r add_const_symbols_error [OF Raise]
      by (cases s) (simp add: ELFWriter_add_function_def Let_def)
  next
    case (Ok s)
    obtain w3 m where s: "s = (w3, m)" by (cases s)
    show ?thesis
    proof (cases "code_relocations (fn_encode f) = []")
      case True
      then show ?thesis using r Ok s by (simp add: ELFWriter_add_function_def Let_def)
    next
      case False
      then show ?thesis using r Ok s
        by (cases "add_relocations (abi_endianness (elf_abi w3)) m
               (code_relocations (fn_encode f)) (bind_text_rela w3)")
          (auto simp: ELFWriter_add_function_def Let_def dest: add_relocations_error)
    qed
  qed
qed

text \<open>
  Claim C8. For every writer that has \<^verbatim>\<open>add_function\<close> (all but the null writer), a call
  with a function that is not bound to an ABI raises the assertion error at once: the
  writer and the files are as before the call, nothing has been appended. A call with a
  function that is bound to an ABI never raises this error.
\<close>

theorem unbound_function_rejected:
  assumes "supports_add_function w"
  shows "writer_add_function ext w (PlainFunction n) s = Raise (AssertionError assert_message) (w, s)
         \<and> raised (writer_add_function ext w (ABIFunction f) s) \<noteq>
             Some (AssertionError assert_message)"
proof (cases w)
  case (Assembly a)
  then show ?thesis
    by (auto simp: AssemblyWriter_add_function_def Let_def split: option.splits)
next
  case (ELF a)
  then show ?thesis
    using ELFWriter_bound_function_passes_assertion [of a f]
    by (cases "ELFWriter_add_function a (ABIFunction f)")
      (auto simp: ELFWriter_add_function_def)
next
  case (MachO a)
  then show ?thesis by (auto simp: MachOWriter_add_function_def Let_def)
next
  case (MSCOFF a)
  then show ?thesis by (auto simp: MSCOFFWriter_add_function_def Let_def)
next
  case (Null a)
  then show ?thesis using assms by simp
qed

theorem unbound_function_rejected_witness:
  "writer_add_function sample_externals (MachO (MachOWriter_init ''out.o'' abi64))
     (PlainFunction ''f'') sample_world =
     Raise (AssertionError assert_message) (MachO (MachOWriter_init ''out.o'' abi64), sample_world)
   \<and> raised (writer_add_function sample_externals (MachO (MachOWriter_init ''out.o'' abi64))
       (ABIFunction fn_plain) sample_world) = None"
proof -
  have s: "supports_add_function (MachO (MachOWriter_init ''out.o'' abi64))" by simp
  show ?thesis
    using unbound_function_rejected [OF s, of sample_externals "''f''" sample_world fn_plain]
    by (simp add: MachOWriter_add_function_def Let_def)
qed

subsection \<open>The Mach-O function symbol\<close>

text \<open>
  Claim C9. A call of \<^verbatim>\<open>add_function\<close> on a Mach-O writer with a function bound to an ABI
  completes and appends exactly one symbol: Defined, SectionRelative, External; its
  string index is the entry of the string table that holds the name of the function
  with one underscore in front; its section index is the index of the text section; its
  value is the length the text section had before the bytes of the function were
  appended.
\<close>

theorem MachO_function_symbol:
  "raised (MachOWriter_add_function w (ABIFunction f)) = None
   \<and> symbols (mw_image (state_of (MachOWriter_add_function w (ABIFunction f)))) =
       symbols (mw_image w) @
         [\<lparr>description = Defined, macho_type = SectionRelative, visibility = External,
           string_index = length (string_table (mw_image w)),
           macho_section_index = macho_index (macho_text_section (mw_image w)),
           macho_value = length (macho_content (macho_text_section (mw_image w)))\<rparr>]
   \<and> string_table (mw_image (state_of (MachOWriter_add_function w (ABIFunction f)))) !
       length (string_table (mw_image w)) = CHR ''_'' # fn_name f
   \<and> macho_index (macho_text_section (mw_image (state_of (MachOWriter_add_function w (ABIFunction f)))))
       = macho_index (macho_text_section (mw_image w))
   \<and> macho_content (macho_text_section (mw_image (state_of (MachOWriter_add_function w (ABIFunction f)))))
       = macho_content (macho_text_section (mw_image w)) @ as_bytearray (fn_encode f)"
  by (simp add: MachOWriter_add_function_def Let_def)

subsection \<open>Construction of the assembly writer\<close>

text \<open>
  Claim C6. \<^verbatim>\<open>AssemblyWriter.__init__\<close> succeeds for exactly the four dialects go, nasm,
  masm and gas, with the comment prefix \<^verbatim>\<open>//\<close>, \<^verbatim>\<open>;\<close>, \<^verbatim>\<open>;\<close> and \<^verbatim>\<open>#\<close>; for any
  other dialect it raises \<^verbatim>\<open>ValueError\<close> (the configuration error of the
  specification). The constructor is a function of its arguments alone: it reads and
  writes no file, the file is opened by \<^verbatim>\<open>__enter__\<close>.
\<close>

theorem AssemblyWriter_dialects:
  "(fmt \<in> {''go'', ''nasm'', ''masm'', ''gas''} \<longrightarrow>
      (\<exists>w. AssemblyWriter_init linesep version path fmt input_path = Inr w \<and>
           assembly_format w = fmt \<and>
           comment_prefix w =
             (if fmt = ''go'' then ''//'' else if fmt = ''gas'' then ''#'' else '';'')))
   \<and> (fmt \<notin> {''go'', ''nasm'', ''masm'', ''gas''} \<longrightarrow>
        AssemblyWriter_init linesep version path fmt input_path =
          Inl (ValueError (''Unknown assembly format: '' @ fmt)))"
  by (auto simp: AssemblyWriter_init_def comment_prefixes_def Let_def)

theorem AssemblyWriter_dialects_witness:
  "(\<exists>w. AssemblyWriter_init [CHR 0x0A] ''0.2.0'' ''out.s'' ''nasm'' None = Inr w \<and>
        assembly_format w = ''nasm'' \<and> comment_prefix w = '';'')
   \<and> AssemblyWriter_init [CHR 0x0A] ''0.2.0'' ''out.s'' ''intel'' None =
        Inl (ValueError ''Unknown assembly format: intel'')"
  using AssemblyWriter_dialects [of "''nasm''" "[CHR 0x0A]" "''0.2.0''" "''out.s''" None]
    AssemblyWriter_dialects [of "''intel''" "[CHR 0x0A]" "''0.2.0''" "''out.s''" None]
  by simp

subsection \<open>Lazy binding of the constant and relocation sections\<close>

lemma add_rodata_sections:
  "add_rodata w ef = (w', off) \<Longrightarrow>
     img_sections (image w') = img_sections (image w) @
       (if const_content ef \<noteq> [] \<and> rodata_section w = None then [''.rodata''] else []) \<and>
     (rodata_section w' = None) = (rodata_section w = None \<and> const_content ef = []) \<and>
     text_rela_section w' = text_rela_section w"
  by (auto simp: add_rodata_def bind_section_def Let_def split: if_splits option.splits)

lemma add_const_symbols_sections:
  "add_const_symbols off cs w m = Ok (w', m') \<Longrightarrow>
     img_sections (image w') = img_sections (image w) \<and>
     rodata_section w' = rodata_section w \<and>
     text_rela_section w' = text_rela_section w"
proof (induction cs arbitrary: w m)
  case Nil
  then show ?case by simp
next
  case (Cons c cs)
  then show ?case
    by (auto simp: strtab_add_def symtab_add_def Let_def split: option.splits)
qed

lemma bind_text_rela_sections:
  "img_sections (image (bind_text_rela w)) = img_sections (image w) @
       (if text_rela_section w = None then [''.rela.text''] else []) \<and>
   text_rela_section (bind_text_rela w) \<noteq> None \<and>
   rodata_section (bind_text_rela w) = rodata_section w"
  by (auto simp: bind_text_rela_def bind_section_def Let_def split: option.splits)

lemma add_relocations_sections:
  "add_relocations e m rs w = Ok w' \<Longrightarrow>
     rodata_section w' = rodata_section w \<and>
     (text_rela_section w' = None) = (text_rela_section w = None)"
proof (induction rs arbitrary: w)
  case Nil
  then show ?case by simp
next
  case (Cons r rs)
  then show ?case
    by (auto split: option.splits sum.splits)
qed

lemma add_function_symbol_sections:
  "img_sections (image (add_function_symbol w n off len)) = img_sections (image w) \<and>
   rodata_section (add_function_symbol w n off len) = rodata_section w \<and>
   text_rela_section (add_function_symbol w n off len) = text_rela_section w"
  by (simp add: add_function_symbol_def strtab_add_def symtab_add_def Let_def)

lemma ELFWriter_add_function_sections:
  assumes "ELFWriter_add_function w (ABIFunction f) = Ok w'"
  shows "img_sections (image w') = img_sections (image w) @
           (if const_content (fn_encode f) \<noteq> [] \<and> rodata_section w = None
            then [''.rodata''] else []) @
           (if code_relocations (fn_encode f) \<noteq> [] \<and> text_rela_section w = None
            then [''.rela.text''] else [])"
    and "(rodata_section w' = None) = (rodata_section w = None \<and> const_content (fn_encode f) = [])"
    and "(text_rela_section w' = None) =
           (text_rela_section w = None \<and> code_relocations (fn_encode f) = [])"
proof -
  from assms obtain w2 off w3 m w4 where
    r: "add_rodata (w\<lparr>text_section :=
        section_append (text_section w) (code_content (fn_encode f))\<rparr>) (fn_encode f) = (w2, off)"
    and c: "add_const_symbols off (const_symbols (fn_encode f)) w2 Map.empty = Ok (w3, m)"
    and rel: "(if code_relocations (fn_encode f) \<noteq> []
           then add_relocations (abi_endianness (elf_abi w3)) m
                  (code_relocations (fn_encode f)) (bind_text_rela w3)
           else Ok w3) = Ok w4"
    and w': "w' = add_function_symbol w4 (fn_name f) (length (sec_content (text_section w)))
                    (length (code_content (fn_encode f)))"
    by (rule ELFWriter_add_function_stages)
  note k2 = add_rodata_sections [OF r]
  note k3 = add_const_symbols_sections [OF c]
  have k4: "img_sections (image w4) = img_sections (image w3) @
              (if code_relocations (fn_encode f) \<noteq> [] \<and> text_rela_section w3 = None
               then [''.rela.text''] else [])"
    "rodata_section w4 = rodata_section w3"
    "(text_rela_section w4 = None) =
       (text_rela_section w3 = None \<and> code_relocations (fn_encode f) = [])"
    using rel add_relocations_sections [of _ _ _ "bind_text_rela w3" w4]
      add_relocations_frame [of _ _ _ "bind_text_rela w3" w4] bind_text_rela_sections [of w3]
    by (auto split: if_splits)
  show "img_sections (image w') = img_sections (image w) @
           (if const_content (fn_encode f) \<noteq> [] \<and> rodata_section w = None
            then [''.rodata''] else []) @
           (if code_relocations (fn_encode f) \<noteq> [] \<and> text_rela_section w = None
            then [''.rela.text''] else [])"
    using k2 k3 k4 by (simp add: w' add_function_symbol_sections)
  show "(rodata_section w' = None) = (rodata_section w = None \<and> const_content (fn_encode f) = [])"
    using k2 k3 k4 by (simp add: w' add_function_symbol_sections)
  show "(text_rela_section w' = None) =
           (text_rela_section w = None \<and> code_relocations (fn_encode f) = [])"
    using k2 k3 k4 by (simp add: w' add_function_symbol_sections)
qed

lemma lazy_sections_step:
  assumes "ELFWriter_add_function w (ABIFunction f) = Ok w'" and "lazy_sections_ok w"
  shows "lazy_sections_ok w'"
  using assms(2) ELFWriter_add_function_sections [OF assms(1)]
  by (auto simp: lazy_sections_ok_def)

lemma lazy_sections_sequence:
  "ELFWriter_add_functions w (map ABIFunction funs) = Ok w' \<Longrightarrow> lazy_sections_ok w \<Longrightarrow>
     lazy_sections_ok w' \<and>
     (rodata_section w' \<noteq> None) =
       (rodata_section w \<noteq> None \<or> (\<exists>f\<in>set funs. const_content (fn_encode f) \<noteq> [])) \<and>
     (text_rela_section w' \<noteq> None) =
       (text_rela_section w \<noteq> None \<or> (\<exists>f\<in>set funs. code_relocations (fn_encode f) \<noteq> []))"
proof (induction funs arbitrary: w)
  case Nil
  then show ?case by simp
next
  case (Cons f funs)
  from Cons.prems obtain w1 where
    one: "ELFWriter_add_function w (ABIFunction f) = Ok w1" and
    more: "ELFWriter_add_functions w1 (map ABIFunction funs) = Ok w'"
    by (auto split: outcome.splits)
  have ok1: "lazy_sections_ok w1" using lazy_sections_step [OF one Cons.prems(2)] .
  show ?case
    using Cons.IH [OF more ok1] ELFWriter_add_function_sections(2,3) [OF one]
    by auto
qed

lemma fresh_lazy_sections:
  "lazy_sections_ok (ELFWriter_init p a ip)"
  "rodata_section (ELFWriter_init p a ip) = None"
  "text_rela_section (ELFWriter_init p a ip) = None"
  by (simp_all add: lazy_sections_ok_def ELFWriter_init_def bind_section_def Image_init_def
      new_section_def)

lemma plain_call:
  assumes "const_content (fn_encode f) = []" "const_symbols (fn_encode f) = []"
    "code_relocations (fn_encode f) = []"
  shows "ELFWriter_add_function w (ABIFunction f) =
           Ok (w\<lparr>text_section := section_append (text_section w) (code_content (fn_encode f)),
                 image := (image w)
                   \<lparr>strtab := strtab (image w) @ [fn_name f],
                    symtab := symtab (image w) @
                      [\<lparr>name_index = length (strtab (image w)),
                        sym_value = int (length (sec_content (text_section w))),
                        sym_content_size = int (length (code_content (fn_encode f))),
                        section_index = sec_index (text_section w),
                        binding = Global, sym_type = Function\<rparr>]\<rparr>\<rparr>)"
  using assms
  by (simp add: ELFWriter_add_function_def add_rodata_def add_function_symbol_def
      strtab_add_def symtab_add_def section_append_def Let_def)

text \<open>
  Claim C7. After the calls of a scope on a new ELF writer, \<^verbatim>\<open>.rodata\<close> is bound to the
  image exactly when some call supplied constant data that is not empty, and
  \<^verbatim>\<open>.rela.text\<close> exactly when some call supplied code relocations; each of the two is
  bound at most once. A call for a function with no constant data, no constant symbols
  and no relocations, on any writer, appends the code to \<^verbatim>\<open>.text\<close>, interns the name
  and adds the one function symbol, and changes nothing else.
\<close>

theorem lazy_sections:
  assumes "ELFWriter_add_functions (ELFWriter_init path a input_path) (map ABIFunction funs) = Ok w"
  shows "(''.rodata'' \<in> set (img_sections (image w))) =
           (\<exists>f\<in>set funs. const_content (fn_encode f) \<noteq> [])
       \<and> (''.rela.text'' \<in> set (img_sections (image w))) =
           (\<exists>f\<in>set funs. code_relocations (fn_encode f) \<noteq> [])
       \<and> count_list (img_sections (image w)) ''.rodata'' \<le> 1
       \<and> count_list (img_sections (image w)) ''.rela.text'' \<le> 1
       \<and> (\<forall>w0 f. const_content (fn_encode f) = [] \<and> const_symbols (fn_encode f) = [] \<and>
                  code_relocations (fn_encode f) = [] \<longrightarrow>
            ELFWriter_add_function w0 (ABIFunction f) =
              Ok (w0\<lparr>text_section := section_append (text_section w0) (code_content (fn_encode f)),
                     image := (image w0)
                       \<lparr>strtab := strtab (image w0) @ [fn_name f],
                        symtab := symtab (image w0) @
                          [\<lparr>name_index = length (strtab (image w0)),
                            sym_value = int (length (sec_content (text_section w0))),
                            sym_content_size = int (length (code_content (fn_encode f))),
                            section_index = sec_index (text_section w0),
                            binding = Global, sym_type = Function\<rparr>]\<rparr>\<rparr>))"
  using lazy_sections_sequence [OF assms fresh_lazy_sections(1)] plain_call
  by (simp add: fresh_lazy_sections lazy_sections_ok_def)

theorem lazy_sections_witness:
  "''.rodata'' \<in> set (img_sections (image (state_of
       (ELFWriter_add_functions (ELFWriter_init ''out.o'' abi64 None)
          (map ABIFunction [fn_plain, fn_const])))))
   \<and> ''.rela.text'' \<in> set (img_sections (image (state_of
       (ELFWriter_add_functions (ELFWriter_init ''out.o'' abi64 None)
          (map ABIFunction [fn_plain, fn_const])))))
   \<and> ''.rodata'' \<notin> set (img_sections (image (state_of
       (ELFWriter_add_function (ELFWriter_init ''out.o'' abi64 None) (ABIFunction fn_plain)))))"
proof -
  note t = lazy_sections [OF outcome_Ok [OF sample_calls_ok]]
  have p: "const_content (fn_encode fn_plain) = [] \<and> const_symbols (fn_encode fn_plain) = [] \<and>
           code_relocations (fn_encode fn_plain) = []"
    by (simp add: fn_plain_def)
  from t have "ELFWriter_add_function (ELFWriter_init ''out.o'' abi64 None) (ABIFunction fn_plain) =
      Ok ((ELFWriter_init ''out.o'' abi64 None)
           \<lparr>text_section := section_append (text_section (ELFWriter_init ''out.o'' abi64 None))
               (code_content (fn_encode fn_plain)),
            image := (image (ELFWriter_init ''out.o'' abi64 None))
              \<lparr>strtab := strtab (image (ELFWriter_init ''out.o'' abi64 None)) @ [fn_name fn_plain],
               symtab := symtab (image (ELFWriter_init ''out.o'' abi64 None)) @
                 [\<lparr>name_index = length (strtab (image (ELFWriter_init ''out.o'' abi64 None))),
                   sym_value = int (length (sec_content (text_section (ELFWriter_init ''out.o'' abi64 None)))),
                   sym_content_size = int (length (code_content (fn_encode fn_plain))),
                   section_index = sec_index (text_section (ELFWriter_init ''out.o'' abi64 None)),
                   binding = Global, sym_type = Function\<rparr>]\<rparr>\<rparr>)"
    using p by blast
  then have "''.rodata'' \<notin> set (img_sections (image (state_of
       (ELFWriter_add_function (ELFWriter_init ''out.o'' abi64 None) (ABIFunction fn_plain)))))"
    by (simp add: ELFWriter_init_def Image_init_def bind_section_def)
  moreover have "\<exists>f\<in>set [fn_plain, fn_const]. const_content (fn_encode f) \<noteq> []"
    and "\<exists>f\<in>set [fn_plain, fn_const]. code_relocations (fn_encode f) \<noteq> []"
    by (simp_all add: fn_const_def)
  ultimately show ?thesis using t by blast
qed

subsection \<open>The encoder, read back\<close>

lemma length_le_bytes [simp]: "length (le_bytes k n) = k"
  by (induction k arbitrary: n) simp_all

lemma le_decode_le_bytes: "le_decode (le_bytes k n) = n mod 256 ^ k"
proof (induction k arbitrary: n)
  case 0
  then show ?case by simp
next
  case (Suc k)
  have "unat (of_nat (n mod 256) :: byte) = n mod 256"
    by (simp add: unat_of_nat)
  then show ?case
    using Suc.IH [of "n div 256"] by (simp add: mod_mult2_eq)
qed

lemma uint64_roundtrip:
  assumes "uint64 e n = Inr b"
  shows "length b = 8" and "int (decode_uint e b) = n"
proof -
  from assms have range: "0 \<le> n" "n \<le> 18446744073709551615"
    and b: "b = (case e of Little \<Rightarrow> le_bytes 8 (nat n) | Big \<Rightarrow> rev (le_bytes 8 (nat n)))"
    by (auto simp: uint64_def split: if_splits)
  show "length b = 8" by (cases e) (simp_all add: b)
  have "decode_uint e b = nat n mod 256 ^ 8"
    by (cases e) (simp_all add: b decode_uint_def le_decode_le_bytes)
  moreover have "nat n < 256 ^ 8" using range by simp
  ultimately show "int (decode_uint e b) = n" using range by simp
qed

lemma masked_addend: "(- 4 :: int) AND 18446744073709551615 = 18446744073709551612"
  by simp

lemma encode_relocation_roundtrip:
  assumes "encode_relocation e off i = Inr b"
  shows "length b = 24"
    and "decode_entry e b = (off, push_bit 32 (int i) OR 2, - 4)"
proof -
  from assms obtain b1 b2 b3 where
    1: "uint64 e off = Inr b1" and
    2: "uint64 e (push_bit 32 (int i) OR 2) = Inr b2" and
    3: "uint64 e 18446744073709551612 = Inr b3" and
    b: "b = b1 @ b2 @ b3"
    by (auto simp: encode_relocation_def R_X86_64_PC32_def Let_def split: sum.splits)
  note r1 = uint64_roundtrip [OF 1] and r2 = uint64_roundtrip [OF 2]
    and r3 = uint64_roundtrip [OF 3]
  show "length b = 24" by (simp add: b r1 r2 r3)
  show "decode_entry e b = (off, push_bit 32 (int i) OR 2, - 4)"
    by (simp add: decode_entry_def b r1 r2 r3 decode_sint64_def Let_def)
qed

lemma decode_entries_concat:
  "\<forall>b\<in>set bss. length b = 24 \<Longrightarrow>
     decode_entries e (length bss) (concat bss @ suffix) = map (decode_entry e) bss"
  by (induction bss) simp_all

lemma rela_entries_concat:
  assumes "\<forall>b\<in>set bss. length b = 24"
  shows "rela_entries e (concat bss) = map (decode_entry e) bss"
proof -
  have "length (concat bss) = 24 * length bss"
    using assms by (induction bss) simp_all
  then show ?thesis
    using decode_entries_concat [OF assms, of e "[]"] by (simp add: rela_entries_def)
qed

subsection \<open>Constant symbols and relocation entries\<close>

lemma const_symbol_at_mono:
  "const_symbol_at before img i n \<Longrightarrow> symtab img' = symtab img @ ss \<Longrightarrow>
     strtab img' = strtab img @ ts \<Longrightarrow> const_symbol_at before img' i n"
  by (auto simp: const_symbol_at_def nth_append)

lemma add_const_symbols_map:
  "add_const_symbols off cs w m = Ok (w', m') \<Longrightarrow>
   length (symtab before) \<le> length (symtab (image w)) \<Longrightarrow>
   length (strtab before) \<le> length (strtab (image w)) \<Longrightarrow>
   (\<forall>n i. m n = Some i \<longrightarrow> const_symbol_at before (image w) i n) \<Longrightarrow>
     (\<forall>n i. m' n = Some i \<longrightarrow> const_symbol_at before (image w') i n) \<and>
     (\<exists>ss ts. symtab (image w') = symtab (image w) @ ss \<and>
              strtab (image w') = strtab (image w) @ ts)"
proof (induction cs arbitrary: w m)
  case Nil
  then show ?case by simp
next
  case (Cons c cs)
  from Cons.prems(1) obtain rodata where rod: "rodata_section w = Some rodata"
    by (auto simp: strtab_add_def Let_def split: option.splits)
  define sym where "sym =
     \<lparr>name_index = length (strtab (image w)), sym_value = int off + cs_offset c,
      sym_content_size = cs_size c, section_index = sec_index rodata,
      binding = Local, sym_type = DataObject\<rparr>"
  define w1 where "w1 = w\<lparr>image := (image w)
       \<lparr>strtab := strtab (image w) @ [cs_name c], symtab := symtab (image w) @ [sym]\<rparr>\<rparr>"
  define m1 where "m1 = m(cs_name c \<mapsto> length (symtab (image w)))"
  have step: "add_const_symbols off cs w1 m1 = Ok (w', m')"
    using Cons.prems(1) rod
    by (simp add: strtab_add_def symtab_add_def Let_def w1_def m1_def sym_def)
  have new: "const_symbol_at before (image w1) (length (symtab (image w))) (cs_name c)"
    using Cons.prems(2,3) by (simp add: const_symbol_at_def w1_def sym_def)
  have old: "const_symbol_at before (image w1) i n" if "m n = Some i" for n i
    using Cons.prems(4) that const_symbol_at_mono [of before "image w" i n "image w1" "[sym]" "[cs_name c]"]
    by (simp add: w1_def)
  have inv: "\<forall>n i. m1 n = Some i \<longrightarrow> const_symbol_at before (image w1) i n"
    using new old by (auto simp: m1_def)
  have l1: "length (symtab before) \<le> length (symtab (image w1))"
    and l2: "length (strtab before) \<le> length (strtab (image w1))"
    using Cons.prems(2,3) by (simp_all add: w1_def)
  from Cons.IH [OF step l1 l2 inv]
  show ?case by (auto simp: w1_def)
qed

lemma add_const_symbols_rela:
  "add_const_symbols off cs w m = r \<Longrightarrow>
     text_rela_section (fst (state_of r)) = text_rela_section w \<and>
     elf_abi (fst (state_of r)) = elf_abi w"
proof (induction cs arbitrary: w m r)
  case Nil
  then show ?case by auto
next
  case (Cons c cs)
  then show ?case
    by (auto simp: strtab_add_def symtab_add_def Let_def split: option.splits)
qed

lemma add_rodata_rela:
  "text_rela_section (fst (add_rodata w ef)) = text_rela_section w \<and>
   elf_abi (fst (add_rodata w ef)) = elf_abi w \<and>
   symtab (image (fst (add_rodata w ef))) = symtab (image w) \<and>
   strtab (image (fst (add_rodata w ef))) = strtab (image w)"
  by (auto simp: add_rodata_def bind_section_def Let_def split: option.splits)

lemma bind_text_rela_content:
  "rela_content (bind_text_rela w) = rela_content w \<and>
   symtab (image (bind_text_rela w)) = symtab (image w) \<and>
   strtab (image (bind_text_rela w)) = strtab (image w)"
  by (auto simp: bind_text_rela_def bind_section_def rela_content_def new_section_def Let_def
      split: option.splits)

lemma add_function_symbol_rela:
  "rela_content (add_function_symbol w n a b) = rela_content w \<and>
   (\<exists>ss ts. symtab (image (add_function_symbol w n a b)) = symtab (image w) @ ss \<and>
            strtab (image (add_function_symbol w n a b)) = strtab (image w) @ ts)"
  by (simp add: add_function_symbol_def strtab_add_def symtab_add_def rela_content_def Let_def)

lemma emitted_none: "emitted e m rs w (Raise err w) 0"
  by (simp add: emitted_def)

lemma emitted_step:
  assumes "emitted e m rs w1 r k"
    and "m (r_symbol rel) = Some i"
    and "encode_relocation e (r_offset rel) i = Inr b"
    and "rela_content w1 = rela_content w @ b"
    and "image w1 = image w"
  shows "emitted e m (rel # rs) w r (Suc k)"
proof -
  have eb: "entry_bytes e (r_offset rel) i = b"
    using assms(3) by (simp add: entry_bytes_def)
  show ?thesis
    using assms eb unfolding emitted_def by simp
qed

lemma add_relocations_emitted:
  "add_relocations e m rs w = r \<Longrightarrow> \<exists>k. emitted e m rs w r k"
proof (induction rs arbitrary: w r)
  case Nil
  then have "emitted e m [] w r 0" by (auto simp: emitted_def)
  then show ?case ..
next
  case (Cons rel rs)
  show ?case
  proof (cases "m (r_symbol rel)")
    case None
    then have "r = Raise (KeyError (r_symbol rel)) w" using Cons.prems by simp
    then show ?thesis using emitted_none by blast
  next
    case (Some i)
    note look = this
    show ?thesis
    proof (cases "encode_relocation e (r_offset rel) i")
      case (Inl err)
      then have "r = Raise err w" using Cons.prems look by simp
      then show ?thesis using emitted_none by blast
    next
      case (Inr b)
      show ?thesis
      proof (cases "text_rela_section w")
        case None
        then have "r = Raise (AttributeError ''_content'') w" using Cons.prems look Inr by simp
        then show ?thesis using emitted_none by blast
      next
        case (Some s)
        define w1 where "w1 = w\<lparr>text_rela_section := Some (rela_append s b)\<rparr>"
        have step: "add_relocations e m rs w1 = r"
          using Cons.prems look Inr Some by (simp add: w1_def)
        have c1: "rela_content w1 = rela_content w @ b"
          using Some by (simp add: w1_def rela_content_def rela_append_def)
        have i1: "image w1 = image w" by (simp add: w1_def)
        from Cons.IH [OF step] obtain k where "emitted e m rs w1 r k" ..
        from emitted_step [OF this look Inr c1 i1] show ?thesis ..
      qed
    qed
  qed
qed

lemma zip_map_take: "zip xs (map g (take k xs)) = map (\<lambda>x. (x, g x)) (take k xs)"
proof (induction xs arbitrary: k)
  case Nil
  then show ?case by simp
next
  case (Cons x xs)
  then show ?case by (cases k) simp_all
qed

lemma emitted_entries:
  assumes em: "emitted e m rs w r k"
    and inv: "\<forall>n i. m n = Some i \<longrightarrow> const_symbol_at before img i n"
  defines "idxs \<equiv> map (\<lambda>rel. the (m (r_symbol rel))) (take k rs)"
  shows "length idxs \<le> length rs"
    and "raised r = None \<longrightarrow> length idxs = length rs"
    and "rela_entries e (drop (length (rela_content w)) (rela_content (state_of r))) =
           map2 (\<lambda>rel i. (r_offset rel, push_bit 32 (int i) OR 2, - 4)) rs idxs"
    and "\<forall>j<length idxs. const_symbol_at before img (idxs ! j) (r_symbol (rs ! j))"
proof -
  let ?g = "\<lambda>rel. the (m (r_symbol rel))"
  let ?bytes = "\<lambda>rel. entry_bytes e (r_offset rel) (?g rel)"
  from em have k: "k \<le> length rs" and full: "raised r = None \<longrightarrow> k = length rs"
    and content: "rela_content (state_of r) = rela_content w @ concat (map ?bytes (take k rs))"
    and each: "\<forall>rel\<in>set (take k rs). m (r_symbol rel) \<noteq> None \<and>
                 encode_relocation e (r_offset rel) (?g rel) = Inr (?bytes rel)"
    by (simp_all add: emitted_def)
  show "length idxs \<le> length rs" using k by (simp add: idxs_def)
  show "raised r = None \<longrightarrow> length idxs = length rs" using k full by (simp add: idxs_def)
  have len: "\<forall>b\<in>set (map ?bytes (take k rs)). length b = 24"
    using each encode_relocation_roundtrip(1) by auto
  have d1: "decode_entry e (?bytes rel) = (r_offset rel, push_bit 32 (int (?g rel)) OR 2, - 4)"
    if "rel \<in> set (take k rs)" for rel
    using each that encode_relocation_roundtrip(2) [of e "r_offset rel" "?g rel" "?bytes rel"]
    by blast
  have dec: "map (decode_entry e) (map ?bytes (take k rs)) =
        map (\<lambda>rel. (r_offset rel, push_bit 32 (int (?g rel)) OR 2, - 4)) (take k rs)"
    unfolding map_map
  proof (rule map_cong [OF refl])
    fix rel assume "rel \<in> set (take k rs)"
    from d1 [OF this]
    show "(decode_entry e \<circ> ?bytes) rel = (r_offset rel, push_bit 32 (int (?g rel)) OR 2, - 4)"
      by simp
  qed
  have "rela_entries e (drop (length (rela_content w)) (rela_content (state_of r))) =
          map (decode_entry e) (map ?bytes (take k rs))"
    using rela_entries_concat [OF len] by (simp add: content)
  also have "\<dots> = map (\<lambda>rel. (r_offset rel, push_bit 32 (int (?g rel)) OR 2, - 4)) (take k rs)"
    by (rule dec)
  also have "\<dots> = map2 (\<lambda>rel i. (r_offset rel, push_bit 32 (int i) OR 2, - 4)) rs idxs"
    by (simp add: idxs_def zip_map_take)
  finally show "rela_entries e (drop (length (rela_content w)) (rela_content (state_of r))) =
           map2 (\<lambda>rel i. (r_offset rel, push_bit 32 (int i) OR 2, - 4)) rs idxs" .
  show "\<forall>j<length idxs. const_symbol_at before img (idxs ! j) (r_symbol (rs ! j))"
  proof (intro allI impI)
    fix j assume "j < length idxs"
    then have j: "j < k" "j < length rs" using k by (simp_all add: idxs_def)
    then have mem: "rs ! j \<in> set (take k rs)"
      by (metis in_set_conv_nth length_take min.absorb2 k nth_take)
    with each obtain i where i: "m (r_symbol (rs ! j)) = Some i" by auto
    have "idxs ! j = i" using j i by (simp add: idxs_def)
    with inv i show "const_symbol_at before img (idxs ! j) (r_symbol (rs ! j))" by simp
  qed
qed

text \<open>
  Claim C3. The bytes a call of \<^verbatim>\<open>add_function\<close> appends to \<^verbatim>\<open>.rela.text\<close> are one
  24-byte entry per relocation of the function, in order (all of them when the call
  completes, those emitted before the exception otherwise). Read back in the byte order
  of the ABI, the entry of a relocation holds its offset, the info field
  \<^verbatim>\<open>(symbol_index << 32) | 2\<close> and the addend \<open>-4\<close>, where \<open>symbol_index\<close> is the index
  of a Local/DataObject symbol that this same call added to the symbol table under the
  name the relocation refers to.
\<close>

theorem relocation_entries:
  assumes "ELFWriter_add_function w (ABIFunction f) = r"
  shows "\<exists>idxs. length idxs \<le> length (code_relocations (fn_encode f)) \<and>
     (raised r = None \<longrightarrow> length idxs = length (code_relocations (fn_encode f))) \<and>
     rela_entries (abi_endianness (elf_abi w))
         (drop (length (rela_content w)) (rela_content (state_of r))) =
       map2 (\<lambda>rel i. (r_offset rel, push_bit 32 (int i) OR 2, - 4))
         (code_relocations (fn_encode f)) idxs \<and>
     (\<forall>k<length idxs. const_symbol_at (image w) (image (state_of r)) (idxs ! k)
                        (r_symbol (code_relocations (fn_encode f) ! k)))"
proof -
  let ?rs = "code_relocations (fn_encode f)"
  let ?e = "abi_endianness (elf_abi w)"
  define w1 where "w1 = w\<lparr>text_section :=
      section_append (text_section w) (code_content (fn_encode f))\<rparr>"
  obtain w2 off where ro: "add_rodata w1 (fn_encode f) = (w2, off)"
    by (cases "add_rodata w1 (fn_encode f)")
  have k2: "text_rela_section w2 = text_rela_section w" "elf_abi w2 = elf_abi w"
    "symtab (image w2) = symtab (image w)" "strtab (image w2) = strtab (image w)"
    using add_rodata_rela [of w1 "fn_encode f"] ro by (simp_all add: w1_def)
  define c where "c = add_const_symbols off (const_symbols (fn_encode f)) w2 Map.empty"
  have k3: "text_rela_section (fst (state_of c)) = text_rela_section w"
    "elf_abi (fst (state_of c)) = elf_abi w"
    using add_const_symbols_rela [OF c_def [symmetric]] k2 by simp_all
  have none: ?thesis
    if "rela_content (state_of r) = rela_content w" "raised r = None \<longrightarrow> ?rs = []"
    using that by (intro exI [of _ "[]"]) (simp add: rela_entries_def)
  show ?thesis
  proof (cases c)
    case (Raise err s)
    then have "r = Raise err (fst s)"
      using assms ro
      by (cases s) (simp add: ELFWriter_add_function_def Let_def w1_def [symmetric] c_def [symmetric])
    then show ?thesis using k3(1) Raise by (intro none) (simp_all add: rela_content_def)
  next
    case (Ok s)
    obtain w3 m where s: "s = (w3, m)" by (cases s)
    have c3: "add_const_symbols off (const_symbols (fn_encode f)) w2 Map.empty = Ok (w3, m)"
      using Ok s by (simp add: c_def)
    have r3: "text_rela_section w3 = text_rela_section w" and a3: "elf_abi w3 = elf_abi w"
      using k3 Ok s by simp_all
    have "(\<forall>n i. m n = Some i \<longrightarrow> const_symbol_at (image w) (image w3) i n) \<and>
          (\<exists>ss ts. symtab (image w3) = symtab (image w2) @ ss \<and>
                   strtab (image w3) = strtab (image w2) @ ts)"
      by (rule add_const_symbols_map [OF c3]) (simp_all add: k2)
    then have inv3: "\<forall>n i. m n = Some i \<longrightarrow> const_symbol_at (image w) (image w3) i n" by simp
    show ?thesis
    proof (cases "?rs = []")
      case True
      then have "r = Ok (add_function_symbol w3 (fn_name f) (length (sec_content (text_section w)))
                          (length (code_content (fn_encode f))))"
        using assms ro c3
        by (simp add: ELFWriter_add_function_def Let_def w1_def [symmetric])
      then show ?thesis
        using r3 add_function_symbol_rela [of w3] True
        by (intro none) (simp_all add: rela_content_def)
    next
      case False
      define d where "d = add_relocations ?e m ?rs (bind_text_rela w3)"
      from add_relocations_emitted [OF d_def [symmetric]]
      obtain k where em: "emitted ?e m ?rs (bind_text_rela w3) d k" ..
      have cb: "rela_content (bind_text_rela w3) = rela_content w"
        using bind_text_rela_content [of w3] r3 by (simp add: rela_content_def)
      have img_d: "symtab (image (state_of d)) = symtab (image w3)"
        "strtab (image (state_of d)) = strtab (image w3)"
        using em bind_text_rela_content [of w3] by (simp_all add: emitted_def)
      show ?thesis
      proof (cases d)
        case (Raise err w4)
        then have r: "r = d"
          using assms ro c3 False a3
          by (simp add: ELFWriter_add_function_def Let_def w1_def [symmetric] d_def)
        have inv: "\<forall>n i. m n = Some i \<longrightarrow> const_symbol_at (image w) (image (state_of r)) i n"
          using inv3 img_d r
            const_symbol_at_mono [of "image w" "image w3" _ _ "image (state_of d)" "[]" "[]"]
          by auto
        from emitted_entries [OF em inv] show ?thesis
          unfolding cb r by (intro exI) blast
      next
        case (Ok w4)
        then have r: "r = Ok (add_function_symbol w4 (fn_name f)
                          (length (sec_content (text_section w)))
                          (length (code_content (fn_encode f))))"
          using assms ro c3 False a3
          by (simp add: ELFWriter_add_function_def Let_def w1_def [symmetric] d_def)
        from add_function_symbol_rela [of w4 "fn_name f" "length (sec_content (text_section w))"
            "length (code_content (fn_encode f))"]
        obtain ss ts where
          "symtab (image (state_of r)) = symtab (image w4) @ ss"
          "strtab (image (state_of r)) = strtab (image w4) @ ts"
          unfolding r state_of.simps by blast
        then have app:
          "symtab (image (state_of r)) = symtab (image w3) @ ss"
          "strtab (image (state_of r)) = strtab (image w3) @ ts"
          using img_d Ok by simp_all
        have inv: "\<forall>n i. m n = Some i \<longrightarrow> const_symbol_at (image w) (image (state_of r)) i n"
          using inv3 const_symbol_at_mono [OF _ app] by blast
        have cr: "rela_content (state_of r) = rela_content (state_of d)"
          using add_function_symbol_rela [of w4] Ok r by simp
        have rr: "raised r = raised d" using Ok r by simp
        from emitted_entries [OF em inv] show ?thesis
          unfolding cb cr rr by (intro exI) blast
      qed
    qed
  qed
qed

lemma sample_writer_facts:
  "length (symtab (image sample_writer)) = 1"
  "rela_content sample_writer = []"
  "abi_endianness (elf_abi sample_writer) = Little"
  by (simp_all add: sample_writer_def elf_defs abi64_def fn_plain_def rela_content_def)

lemma sample_call_facts:
  "raised (ELFWriter_add_function sample_writer (ABIFunction fn_const)) = None"
  "map binding (symtab (image (state_of
      (ELFWriter_add_function sample_writer (ABIFunction fn_const))))) = [Global, Local, Global]"
  by (simp_all add: sample_writer_def elf_defs abi64_def fn_plain_def fn_const_def uint64_def)

theorem relocation_entries_witness:
  "raised (ELFWriter_add_function sample_writer (ABIFunction fn_const)) = None
   \<and> rela_entries Little
       (rela_content (state_of (ELFWriter_add_function sample_writer (ABIFunction fn_const)))) =
       [(4, 4294967298, - 4)]"
proof -
  let ?r = "ELFWriter_add_function sample_writer (ABIFunction fn_const)"
  from relocation_entries [where w = sample_writer and f = fn_const, OF refl]
  obtain idxs where
    full: "raised ?r = None \<longrightarrow> length idxs = length (code_relocations (fn_encode fn_const))"
    and entries: "rela_entries (abi_endianness (elf_abi sample_writer))
         (drop (length (rela_content sample_writer)) (rela_content (state_of ?r))) =
       map2 (\<lambda>rel i. (r_offset rel, push_bit 32 (int i) OR 2, - 4))
         (code_relocations (fn_encode fn_const)) idxs"
    and syms: "\<forall>k<length idxs. const_symbol_at (image sample_writer) (image (state_of ?r))
                  (idxs ! k) (r_symbol (code_relocations (fn_encode fn_const) ! k))"
    by (elim exE conjE) (rule that)
  have rl: "code_relocations (fn_encode fn_const) = [\<lparr>r_offset = 4, r_symbol = ''c0''\<rparr>]"
    by (simp add: fn_const_def)
  from full have "length idxs = 1"
    by (simp add: sample_call_facts rl)
  then obtain i where idxs: "idxs = [i]"
    by (cases idxs) simp_all
  from syms have at: "1 \<le> i" "i < length (symtab (image (state_of ?r)))"
    "binding (symtab (image (state_of ?r)) ! i) = Local"
    by (simp_all add: idxs const_symbol_at_def sample_writer_facts)
  have len: "length (symtab (image (state_of ?r))) = 3"
    using sample_call_facts(2) [THEN arg_cong, of length] by simp
  have "i \<noteq> 2"
  proof
    assume "i = 2"
    then have "binding (symtab (image (state_of ?r)) ! i) = [Global, Local, Global] ! 2"
      using len sample_call_facts(2) [symmetric] by simp
    with at(3) show False by simp
  qed
  with at len have i: "i = 1" by simp
  have "rela_entries Little (rela_content (state_of ?r)) = [(4, push_bit 32 (int 1) OR 2, - 4)]"
    using entries by (simp add: sample_writer_facts idxs i rl)
  then show ?thesis by (simp add: sample_call_facts)
qed

text \<open>
  Claim C4, on a 32-bit target. The header of \<^verbatim>\<open>.rela.text\<close> declares an entry size of
  12, but the entry is still three \<^verbatim>\<open>uint64\<close> fields: after one call with one relocation
  on a new writer for a 32-bit ABI the section holds 24 bytes, its declared entry size is
  12 and its declared content size is 24.
\<close>

theorem relocation_entry_on_32_bit_target:
  "map_option
     (\<lambda>s. (length (sec_content s), map_option entry_size (sec_header s),
           map_option content_size (sec_header s)))
     (text_rela_section (state_of
        (ELFWriter_add_function (ELFWriter_init ''out.o'' abi32 None) (ABIFunction fn_const))))
   = Some (24, Some 12, Some 24)"
  by (simp add: elf_defs abi32_def fn_const_def uint64_def)

subsection \<open>Relocations that name no constant of their function\<close>

lemma add_const_symbols_dom:
  "add_const_symbols off cs w m = Ok (w', m') \<Longrightarrow> dom m' = dom m \<union> cs_name ` set cs"
proof (induction cs arbitrary: w m)
  case Nil
  then show ?case by simp
next
  case (Cons c cs)
  then show ?case
    by (auto simp: strtab_add_def symtab_add_def Let_def split: option.splits)
qed

lemma add_relocations_unresolved:
  "\<exists>rel\<in>set rs. m (r_symbol rel) = None \<Longrightarrow> raised (add_relocations e m rs w) \<noteq> None"
proof (induction rs arbitrary: w)
  case Nil
  then show ?case by simp
next
  case (Cons r rs)
  then show ?case
    by (auto split: option.splits sum.splits)
qed

lemma never_completes:
  assumes "rel \<in> set (code_relocations (fn_encode f))" "unresolved (fn_encode f) rel"
  shows "raised (ELFWriter_add_function w (ABIFunction f)) \<noteq> None"
proof
  assume "raised (ELFWriter_add_function w (ABIFunction f)) = None"
  then have ok: "ELFWriter_add_function w (ABIFunction f) =
                   Ok (state_of (ELFWriter_add_function w (ABIFunction f)))"
    by (rule outcome_Ok)
  from ok obtain w2 off w3 m w4 where
    c: "add_const_symbols off (const_symbols (fn_encode f)) w2 Map.empty = Ok (w3, m)"
    and rel: "(if code_relocations (fn_encode f) \<noteq> []
           then add_relocations (abi_endianness (elf_abi w3)) m
                  (code_relocations (fn_encode f)) (bind_text_rela w3)
           else Ok w3) = Ok w4"
    by (rule ELFWriter_add_function_stages)
  have "m (r_symbol rel) = None"
    using add_const_symbols_dom [OF c] assms(2) by (auto simp: unresolved_def)
  with assms(1) have "\<exists>rel\<in>set (code_relocations (fn_encode f)). m (r_symbol rel) = None"
    by blast
  from add_relocations_unresolved [OF this]
  have "raised (add_relocations (abi_endianness (elf_abi w3)) m
                  (code_relocations (fn_encode f)) (bind_text_rela w3)) \<noteq> None" .
  moreover have "code_relocations (fn_encode f) \<noteq> []" using assms(1) by auto
  ultimately show False using rel by simp
qed


lemma add_const_symbols_completes:
  "rodata_section w \<noteq> None \<or> cs = [] \<Longrightarrow>
   \<forall>n i. m n = Some i \<longrightarrow> i < length (symtab (image w)) \<Longrightarrow>
     \<exists>w' m'. add_const_symbols off cs w m = Ok (w', m') \<and>
       (\<forall>n i. m' n = Some i \<longrightarrow> i < length (symtab (image w)) + length cs)"
proof (induction cs arbitrary: w m)
  case Nil
  then show ?case by simp
next
  case (Cons c cs)
  from Cons.prems(1) obtain rodata where rod: "rodata_section w = Some rodata" by auto
  define sym where "sym =
     \<lparr>name_index = length (strtab (image w)), sym_value = int off + cs_offset c,
      sym_content_size = cs_size c, section_index = sec_index rodata,
      binding = Local, sym_type = DataObject\<rparr>"
  define w1 where "w1 = w\<lparr>image := (image w)
       \<lparr>strtab := strtab (image w) @ [cs_name c], symtab := symtab (image w) @ [sym]\<rparr>\<rparr>"
  define m1 where "m1 = m(cs_name c \<mapsto> length (symtab (image w)))"
  have step: "add_const_symbols off (c # cs) w m = add_const_symbols off cs w1 m1"
    using rod by (simp add: strtab_add_def symtab_add_def Let_def w1_def m1_def sym_def)
  have p1: "rodata_section w1 \<noteq> None \<or> cs = []" using rod by (simp add: w1_def)
  have p2: "\<forall>n i. m1 n = Some i \<longrightarrow> i < length (symtab (image w1))"
    using Cons.prems(2) by (auto simp: m1_def w1_def less_Suc_eq)
  from Cons.IH [OF p1 p2] obtain w' m' where
    "add_const_symbols off cs w1 m1 = Ok (w', m')"
    "\<forall>n i. m' n = Some i \<longrightarrow> i < length (symtab (image w1)) + length cs"
    by blast
  then show ?case
    unfolding step by (intro exI [of _ w'] exI [of _ m']) (simp add: w1_def)
qed

lemma info_in_range:
  assumes "i < 4294967296"
  shows "0 \<le> push_bit 32 (int i) OR 2" and "push_bit 32 (int i) OR 2 \<le> 18446744073709551615"
proof -
  show "0 \<le> push_bit 32 (int i) OR 2" by simp
  have "push_bit 32 (int i) < 2 ^ 64"
    using assms by (simp add: push_bit_eq_mult)
  moreover have "(2::int) < 2 ^ 64" by simp
  ultimately have "push_bit 32 (int i) OR 2 < 2 ^ 64"
    by (intro OR_upper) simp_all
  then show "push_bit 32 (int i) OR 2 \<le> 18446744073709551615" by simp
qed

lemma encode_relocation_ok:
  assumes "0 \<le> off" "off < 18446744073709551616" "i < 4294967296"
  shows "\<exists>b. encode_relocation e off i = Inr b"
  using assms info_in_range [OF assms(3)]
  by (simp add: encode_relocation_def uint64_def R_X86_64_PC32_def Let_def)

lemma add_relocations_key_error:
  "text_rela_section w \<noteq> None \<Longrightarrow>
   \<forall>rel\<in>set rs. 0 \<le> r_offset rel \<and> r_offset rel < 18446744073709551616 \<Longrightarrow>
   \<forall>n i. m n = Some i \<longrightarrow> i < 4294967296 \<Longrightarrow>
   \<exists>rel\<in>set rs. m (r_symbol rel) = None \<Longrightarrow>
     \<exists>rel\<in>set rs. m (r_symbol rel) = None \<and>
       raised (add_relocations e m rs w) = Some (KeyError (r_symbol rel))"
proof (induction rs arbitrary: w)
  case Nil
  then show ?case by simp
next
  case (Cons r rs)
  show ?case
  proof (cases "m (r_symbol r)")
    case None
    then show ?thesis by simp
  next
    case (Some i)
    from Cons.prems(1) obtain s where s: "text_rela_section w = Some s" by auto
    from Cons.prems(2,3) Some obtain b where b: "encode_relocation e (r_offset r) i = Inr b"
      using encode_relocation_ok [of "r_offset r" i e] by auto
    have rest: "\<exists>rel\<in>set rs. m (r_symbol rel) = None" using Cons.prems(4) Some by auto
    have "\<exists>rel\<in>set rs. m (r_symbol rel) = None \<and>
            raised (add_relocations e m rs (w\<lparr>text_rela_section := Some (rela_append s b)\<rparr>)) =
              Some (KeyError (r_symbol rel))"
      using Cons.prems(2,3) rest by (intro Cons.IH) simp_all
    then show ?thesis using Some s b by auto
  qed
qed

text \<open>
  Claim C10, as stated, fails where the call raises before it reaches the lookup: on a new
  writer, a function that has a constant symbol but no constant data makes the loop over
  the constant symbols read \<^verbatim>\<open>self.rodata_section.index\<close> while \<^verbatim>\<open>rodata_section\<close> is
  \<^verbatim>\<open>None\<close>; the call ends with an attribute error, although its relocation is unresolved.
\<close>

theorem lookup_error_counterexample:
  "unresolved (fn_encode fn_dangling) (hd (code_relocations (fn_encode fn_dangling)))
   \<and> raised (ELFWriter_add_function (ELFWriter_init ''out.o'' abi64 None) (ABIFunction fn_dangling))
       = Some (AttributeError ''index'')"
  by (simp add: elf_defs abi64_def fn_dangling_def unresolved_def)

text \<open>
  Claim C10, amended. A call of \<^verbatim>\<open>ELFWriter.add_function\<close> in which some relocation is
  unresolved never completes: the map from names to indexes starts empty in every call
  and holds the constant symbols of this call only, whatever symbols earlier calls have
  put in the symbol table. When the loop over the constant symbols completes (there are
  no constant symbols, or \<^verbatim>\<open>.rodata\<close> exists by then) and the offsets and the symbol
  indexes fit the encoder, the call ends with the lookup error \<^verbatim>\<open>KeyError\<close> on the name
  of an unresolved relocation.
\<close>

theorem unresolved_relocation_fails:
  assumes "rel \<in> set (code_relocations (fn_encode f))" "unresolved (fn_encode f) rel"
  shows "raised (ELFWriter_add_function w (ABIFunction f)) \<noteq> None
       \<and> ((const_symbols (fn_encode f) = [] \<or> const_content (fn_encode f) \<noteq> [] \<or>
            rodata_section w \<noteq> None) \<and>
           (\<forall>r\<in>set (code_relocations (fn_encode f)).
              0 \<le> r_offset r \<and> r_offset r < 18446744073709551616) \<and>
           length (symtab (image w)) + length (const_symbols (fn_encode f)) \<le> 4294967296
          \<longrightarrow> (\<exists>r\<in>set (code_relocations (fn_encode f)). unresolved (fn_encode f) r \<and>
                 raised (ELFWriter_add_function w (ABIFunction f)) = Some (KeyError (r_symbol r))))"
proof (intro conjI impI)
  show "raised (ELFWriter_add_function w (ABIFunction f)) \<noteq> None"
    using assms by (rule never_completes)
next
  let ?rs = "code_relocations (fn_encode f)"
  assume "(const_symbols (fn_encode f) = [] \<or> const_content (fn_encode f) \<noteq> [] \<or>
            rodata_section w \<noteq> None) \<and>
          (\<forall>r\<in>set ?rs. 0 \<le> r_offset r \<and> r_offset r < 18446744073709551616) \<and>
          length (symtab (image w)) + length (const_symbols (fn_encode f)) \<le> 4294967296"
  then have h1: "const_symbols (fn_encode f) = [] \<or> const_content (fn_encode f) \<noteq> [] \<or>
            rodata_section w \<noteq> None"
    and h2: "\<forall>r\<in>set ?rs. 0 \<le> r_offset r \<and> r_offset r < 18446744073709551616"
    and h3: "length (symtab (image w)) + length (const_symbols (fn_encode f)) \<le> 4294967296"
    by simp_all
  define w1 where "w1 = w\<lparr>text_section :=
      section_append (text_section w) (code_content (fn_encode f))\<rparr>"
  obtain w2 off where ro: "add_rodata w1 (fn_encode f) = (w2, off)"
    by (cases "add_rodata w1 (fn_encode f)")
  have k2: "(rodata_section w2 = None) = (rodata_section w = None \<and> const_content (fn_encode f) = [])"
    "symtab (image w2) = symtab (image w)"
    using add_rodata_sections [OF ro] add_rodata_frame [OF ro] by (simp_all add: w1_def)
  have p1: "rodata_section w2 \<noteq> None \<or> const_symbols (fn_encode f) = []"
    using h1 k2(1) by auto
  from add_const_symbols_completes [OF p1, of Map.empty off]
  obtain w3 m where c: "add_const_symbols off (const_symbols (fn_encode f)) w2 Map.empty = Ok (w3, m)"
    and bound: "\<forall>n i. m n = Some i \<longrightarrow>
                  i < length (symtab (image w2)) + length (const_symbols (fn_encode f))"
    by auto
  have small: "\<forall>n i. m n = Some i \<longrightarrow> i < 4294967296"
    using bound h3 k2(2) by fastforce
  have "m (r_symbol rel) = None"
    using add_const_symbols_dom [OF c] assms(2) by (auto simp: unresolved_def)
  with assms(1) have ex: "\<exists>rel\<in>set ?rs. m (r_symbol rel) = None" by blast
  have ne: "?rs \<noteq> []" using assms(1) by auto
  have tr: "text_rela_section (bind_text_rela w3) \<noteq> None"
    using bind_text_rela_sections [of w3] by simp
  from add_relocations_key_error [OF tr h2 small ex, of "abi_endianness (elf_abi w3)"]
  obtain r where r: "r \<in> set ?rs" "m (r_symbol r) = None"
    "raised (add_relocations (abi_endianness (elf_abi w3)) m ?rs (bind_text_rela w3)) =
       Some (KeyError (r_symbol r))"
    by blast
  have un: "unresolved (fn_encode f) r"
    using add_const_symbols_dom [OF c] r(2) by (auto simp: unresolved_def)
  have "raised (ELFWriter_add_function w (ABIFunction f)) = Some (KeyError (r_symbol r))"
    using ro c ne r(3)
    by (cases "add_relocations (abi_endianness (elf_abi w3)) m ?rs (bind_text_rela w3)")
      (simp_all add: ELFWriter_add_function_def Let_def w1_def [symmetric])
  with r(1) un
  show "\<exists>r\<in>set ?rs. unresolved (fn_encode f) r \<and>
          raised (ELFWriter_add_function w (ABIFunction f)) = Some (KeyError (r_symbol r))"
    by blast
qed

lemma sample_writer2_facts:
  "raised (ELFWriter_add_function (ELFWriter_init ''out.o'' abi64 None) (ABIFunction fn_const)) = None"
  "length (symtab (image sample_writer2)) = 2"
  "map (\<lambda>s. strtab (image sample_writer2) ! name_index s) (symtab (image sample_writer2)) =
     [''c0'', ''g'']"
  by (simp_all add: sample_writer2_def elf_defs abi64_def fn_const_def uint64_def)

theorem unresolved_relocation_fails_witness:
  "map (\<lambda>s. strtab (image sample_writer2) ! name_index s) (symtab (image sample_writer2)) =
     [''c0'', ''g'']
   \<and> raised (ELFWriter_add_function sample_writer2 (ABIFunction fn_reuse)) = Some (KeyError ''c0'')"
proof -
  have rs: "code_relocations (fn_encode fn_reuse) = [\<lparr>r_offset = 4, r_symbol = ''c0''\<rparr>]"
    and cs: "const_symbols (fn_encode fn_reuse) = []"
    by (simp_all add: fn_reuse_def)
  have a1: "\<lparr>r_offset = 4, r_symbol = ''c0''\<rparr> \<in> set (code_relocations (fn_encode fn_reuse))"
    by (simp add: rs)
  have a2: "unresolved (fn_encode fn_reuse) \<lparr>r_offset = 4, r_symbol = ''c0''\<rparr>"
    by (simp add: unresolved_def cs)
  from unresolved_relocation_fails [OF a1 a2, of sample_writer2]
  have "raised (ELFWriter_add_function sample_writer2 (ABIFunction fn_reuse)) =
          Some (KeyError ''c0'')"
    by (simp add: rs cs sample_writer2_facts(2))
  then show ?thesis by (simp add: sample_writer2_facts(3))
qed

end
